theory Spec2Isabelle
  imports Main "HOL-Library.Word"
begin

unbundle bit_operations_syntax

section \<open>Register map and bit layouts\<close>

text \<open>
  Modelled from the spec: the header \<^verbatim>\<open>riscv-iommu-bits.h\<close> is not among the sources.
  The specification requires the register offsets and the bit layouts of the RISC-V IOMMU
  architecture document; the values below are those.
\<close>

named_theorems bits \<open>register offsets and bit masks\<close>

definition BIT :: "nat \<Rightarrow> 32 word" where
  "BIT n = push_bit n 1"

definition BIT_ULL :: "nat \<Rightarrow> 64 word" where
  "BIT_ULL n = push_bit n 1"

definition GENMASK_ULL :: "nat \<Rightarrow> nat \<Rightarrow> 64 word" where
  "GENMASK_ULL h l = push_bit l (mask (h + 1 - l))"

definition RISCV_IOMMU_REG_CAP :: nat where [bits]: "RISCV_IOMMU_REG_CAP = 0x0000"
definition RISCV_IOMMU_REG_FCTL :: nat where [bits]: "RISCV_IOMMU_REG_FCTL = 0x0008"
definition RISCV_IOMMU_REG_DDTP :: nat where [bits]: "RISCV_IOMMU_REG_DDTP = 0x0010"
definition RISCV_IOMMU_REG_CQB :: nat where [bits]: "RISCV_IOMMU_REG_CQB = 0x0018"
definition RISCV_IOMMU_REG_CQH :: nat where [bits]: "RISCV_IOMMU_REG_CQH = 0x0020"
definition RISCV_IOMMU_REG_CQT :: nat where [bits]: "RISCV_IOMMU_REG_CQT = 0x0024"
definition RISCV_IOMMU_REG_FQB :: nat where [bits]: "RISCV_IOMMU_REG_FQB = 0x0028"
definition RISCV_IOMMU_REG_FQH :: nat where [bits]: "RISCV_IOMMU_REG_FQH = 0x0030"
definition RISCV_IOMMU_REG_FQT :: nat where [bits]: "RISCV_IOMMU_REG_FQT = 0x0034"
definition RISCV_IOMMU_REG_PQB :: nat where [bits]: "RISCV_IOMMU_REG_PQB = 0x0038"
definition RISCV_IOMMU_REG_PQH :: nat where [bits]: "RISCV_IOMMU_REG_PQH = 0x0040"
definition RISCV_IOMMU_REG_PQT :: nat where [bits]: "RISCV_IOMMU_REG_PQT = 0x0044"
definition RISCV_IOMMU_REG_CQCSR :: nat where [bits]: "RISCV_IOMMU_REG_CQCSR = 0x0048"
definition RISCV_IOMMU_REG_FQCSR :: nat where [bits]: "RISCV_IOMMU_REG_FQCSR = 0x004C"
definition RISCV_IOMMU_REG_PQCSR :: nat where [bits]: "RISCV_IOMMU_REG_PQCSR = 0x0050"
definition RISCV_IOMMU_REG_IPSR :: nat where [bits]: "RISCV_IOMMU_REG_IPSR = 0x0054"
definition RISCV_IOMMU_REG_IVEC :: nat where [bits]: "RISCV_IOMMU_REG_IVEC = 0x02F8"
definition RISCV_IOMMU_REG_MSI_CONFIG :: nat where [bits]: "RISCV_IOMMU_REG_MSI_CONFIG = 0x0300"
definition RISCV_IOMMU_REG_SIZE :: nat where [bits]: "RISCV_IOMMU_REG_SIZE = 0x1000"

text \<open>Capabilities and feature control.\<close>

definition RISCV_IOMMU_CAP_MSI_FLAT :: "64 word" where [bits]: "RISCV_IOMMU_CAP_MSI_FLAT = 0x400000"
definition RISCV_IOMMU_CAP_T2GPA :: "64 word" where [bits]: "RISCV_IOMMU_CAP_T2GPA = 0x4000000"
definition RISCV_IOMMU_FCTL_WSI :: "32 word" where [bits]: "RISCV_IOMMU_FCTL_WSI = 0x2"

text \<open>Device directory table pointer: MODE is bits 3:0, BUSY bit 4, PPN bits 53:10.\<close>

definition RISCV_IOMMU_PPN_FIELD :: "64 word" where [bits]: "RISCV_IOMMU_PPN_FIELD = 0x3FFFFFFFFFFC00"
definition RISCV_IOMMU_ATP_PPN_FIELD :: "64 word" where [bits]: "RISCV_IOMMU_ATP_PPN_FIELD = 0xFFFFFFFFFFF"
definition RISCV_IOMMU_ATP_MODE_FIELD :: "64 word" where [bits]: "RISCV_IOMMU_ATP_MODE_FIELD = 0xF000000000000000"

definition RISCV_IOMMU_DDTP_MODE :: "64 word" where [bits]: "RISCV_IOMMU_DDTP_MODE = 0xF"
definition RISCV_IOMMU_DDTP_BUSY :: "32 word" where [bits]: "RISCV_IOMMU_DDTP_BUSY = 0x10"
definition RISCV_IOMMU_DDTP_PPN :: "64 word" where [bits]: "RISCV_IOMMU_DDTP_PPN = RISCV_IOMMU_PPN_FIELD"

definition RISCV_IOMMU_DDTP_MODE_OFF :: "64 word" where [bits]: "RISCV_IOMMU_DDTP_MODE_OFF = 0"
definition RISCV_IOMMU_DDTP_MODE_BARE :: "64 word" where [bits]: "RISCV_IOMMU_DDTP_MODE_BARE = 1"
definition RISCV_IOMMU_DDTP_MODE_1LVL :: "64 word" where [bits]: "RISCV_IOMMU_DDTP_MODE_1LVL = 2"
definition RISCV_IOMMU_DDTP_MODE_2LVL :: "64 word" where [bits]: "RISCV_IOMMU_DDTP_MODE_2LVL = 3"
definition RISCV_IOMMU_DDTP_MODE_3LVL :: "64 word" where [bits]: "RISCV_IOMMU_DDTP_MODE_3LVL = 4"

text \<open>Queue base registers and queue control/status registers.\<close>

definition RISCV_IOMMU_QUEUE_LOGSZ_FIELD :: "64 word" where [bits]: "RISCV_IOMMU_QUEUE_LOGSZ_FIELD = 0x1F"
definition RISCV_IOMMU_CQB_LOG2SZ :: "64 word" where [bits]: "RISCV_IOMMU_CQB_LOG2SZ = RISCV_IOMMU_QUEUE_LOGSZ_FIELD"
definition RISCV_IOMMU_CQB_PPN :: "64 word" where [bits]: "RISCV_IOMMU_CQB_PPN = RISCV_IOMMU_PPN_FIELD"
definition RISCV_IOMMU_FQB_LOG2SZ :: "64 word" where [bits]: "RISCV_IOMMU_FQB_LOG2SZ = RISCV_IOMMU_QUEUE_LOGSZ_FIELD"
definition RISCV_IOMMU_FQB_PPN :: "64 word" where [bits]: "RISCV_IOMMU_FQB_PPN = RISCV_IOMMU_PPN_FIELD"
definition RISCV_IOMMU_PQB_LOG2SZ :: "64 word" where [bits]: "RISCV_IOMMU_PQB_LOG2SZ = RISCV_IOMMU_QUEUE_LOGSZ_FIELD"
definition RISCV_IOMMU_PQB_PPN :: "64 word" where [bits]: "RISCV_IOMMU_PQB_PPN = RISCV_IOMMU_PPN_FIELD"

definition RISCV_IOMMU_CQCSR_CQEN :: "32 word" where [bits]: "RISCV_IOMMU_CQCSR_CQEN = 0x1"
definition RISCV_IOMMU_CQCSR_CIE :: "32 word" where [bits]: "RISCV_IOMMU_CQCSR_CIE = 0x2"
definition RISCV_IOMMU_CQCSR_CQMF :: "32 word" where [bits]: "RISCV_IOMMU_CQCSR_CQMF = 0x100"
definition RISCV_IOMMU_CQCSR_CMD_TO :: "32 word" where [bits]: "RISCV_IOMMU_CQCSR_CMD_TO = 0x200"
definition RISCV_IOMMU_CQCSR_CMD_ILL :: "32 word" where [bits]: "RISCV_IOMMU_CQCSR_CMD_ILL = 0x400"
definition RISCV_IOMMU_CQCSR_FENCE_W_IP :: "32 word" where [bits]: "RISCV_IOMMU_CQCSR_FENCE_W_IP = 0x800"
definition RISCV_IOMMU_CQCSR_CQON :: "32 word" where [bits]: "RISCV_IOMMU_CQCSR_CQON = 0x10000"
definition RISCV_IOMMU_CQCSR_BUSY :: "32 word" where [bits]: "RISCV_IOMMU_CQCSR_BUSY = 0x20000"

definition RISCV_IOMMU_FQCSR_FQEN :: "32 word" where [bits]: "RISCV_IOMMU_FQCSR_FQEN = 0x1"
definition RISCV_IOMMU_FQCSR_FIE :: "32 word" where [bits]: "RISCV_IOMMU_FQCSR_FIE = 0x2"
definition RISCV_IOMMU_FQCSR_FQMF :: "32 word" where [bits]: "RISCV_IOMMU_FQCSR_FQMF = 0x100"
definition RISCV_IOMMU_FQCSR_FQOF :: "32 word" where [bits]: "RISCV_IOMMU_FQCSR_FQOF = 0x200"
definition RISCV_IOMMU_FQCSR_FQON :: "32 word" where [bits]: "RISCV_IOMMU_FQCSR_FQON = 0x10000"
definition RISCV_IOMMU_FQCSR_BUSY :: "32 word" where [bits]: "RISCV_IOMMU_FQCSR_BUSY = 0x20000"

definition RISCV_IOMMU_PQCSR_PQEN :: "32 word" where [bits]: "RISCV_IOMMU_PQCSR_PQEN = 0x1"
definition RISCV_IOMMU_PQCSR_PIE :: "32 word" where [bits]: "RISCV_IOMMU_PQCSR_PIE = 0x2"
definition RISCV_IOMMU_PQCSR_PQMF :: "32 word" where [bits]: "RISCV_IOMMU_PQCSR_PQMF = 0x100"
definition RISCV_IOMMU_PQCSR_PQOF :: "32 word" where [bits]: "RISCV_IOMMU_PQCSR_PQOF = 0x200"
definition RISCV_IOMMU_PQCSR_PQON :: "32 word" where [bits]: "RISCV_IOMMU_PQCSR_PQON = 0x10000"
definition RISCV_IOMMU_PQCSR_BUSY :: "32 word" where [bits]: "RISCV_IOMMU_PQCSR_BUSY = 0x20000"

text \<open>Interrupt pending status and interrupt sources.\<close>

definition RISCV_IOMMU_IPSR_CIP :: "32 word" where [bits]: "RISCV_IOMMU_IPSR_CIP = 0x1"
definition RISCV_IOMMU_IPSR_FIP :: "32 word" where [bits]: "RISCV_IOMMU_IPSR_FIP = 0x2"
definition RISCV_IOMMU_IPSR_PIP :: "32 word" where [bits]: "RISCV_IOMMU_IPSR_PIP = 0x8"

definition RISCV_IOMMU_INTR_CQ :: nat where [bits]: "RISCV_IOMMU_INTR_CQ = 0"
definition RISCV_IOMMU_INTR_FQ :: nat where [bits]: "RISCV_IOMMU_INTR_FQ = 1"
definition RISCV_IOMMU_INTR_PQ :: nat where [bits]: "RISCV_IOMMU_INTR_PQ = 3"

text \<open>Device directory entries, device context and process context.\<close>

definition RISCV_IOMMU_DDTE_VALID :: "64 word" where [bits]: "RISCV_IOMMU_DDTE_VALID = 0x1"
definition RISCV_IOMMU_DDTE_PPN :: "64 word" where [bits]: "RISCV_IOMMU_DDTE_PPN = RISCV_IOMMU_PPN_FIELD"

definition RISCV_IOMMU_DC_TC_V :: "64 word" where [bits]: "RISCV_IOMMU_DC_TC_V = 0x1"
definition RISCV_IOMMU_DC_TC_EN_PRI :: "64 word" where [bits]: "RISCV_IOMMU_DC_TC_EN_PRI = 0x4"
definition RISCV_IOMMU_DC_TC_T2GPA :: "64 word" where [bits]: "RISCV_IOMMU_DC_TC_T2GPA = 0x8"
definition RISCV_IOMMU_DC_TC_DTF :: "64 word" where [bits]: "RISCV_IOMMU_DC_TC_DTF = 0x10"
definition RISCV_IOMMU_DC_TC_PDTV :: "64 word" where [bits]: "RISCV_IOMMU_DC_TC_PDTV = 0x20"
definition RISCV_IOMMU_DC_TC_PRPR :: "64 word" where [bits]: "RISCV_IOMMU_DC_TC_PRPR = 0x40"
definition RISCV_IOMMU_DC_TC_SBE :: "64 word" where [bits]: "RISCV_IOMMU_DC_TC_SBE = 0x400"

definition RISCV_IOMMU_DC_FSC_PDTP_MODE_PD8 :: "64 word" where [bits]: "RISCV_IOMMU_DC_FSC_PDTP_MODE_PD8 = 1"
definition RISCV_IOMMU_DC_FSC_PDTP_MODE_PD20 :: "64 word" where [bits]: "RISCV_IOMMU_DC_FSC_PDTP_MODE_PD20 = 3"

definition RISCV_IOMMU_DC_MSIPTP_PPN :: "64 word" where [bits]: "RISCV_IOMMU_DC_MSIPTP_PPN = RISCV_IOMMU_ATP_PPN_FIELD"
definition RISCV_IOMMU_DC_MSIPTP_MODE :: "64 word" where [bits]: "RISCV_IOMMU_DC_MSIPTP_MODE = RISCV_IOMMU_ATP_MODE_FIELD"
definition RISCV_IOMMU_DC_MSIPTP_MODE_OFF :: "64 word" where [bits]: "RISCV_IOMMU_DC_MSIPTP_MODE_OFF = 0"
definition RISCV_IOMMU_DC_MSIPTP_MODE_FLAT :: "64 word" where [bits]: "RISCV_IOMMU_DC_MSIPTP_MODE_FLAT = 1"

definition RISCV_IOMMU_PC_TA_V :: "64 word" where [bits]: "RISCV_IOMMU_PC_TA_V = 0x1"
definition RISCV_IOMMU_PC_TA_RESERVED :: "64 word" where [bits]: "RISCV_IOMMU_PC_TA_RESERVED = 0xFFFFFFFF00000000"
definition RISCV_IOMMU_PC_FSC_PPN :: "64 word" where [bits]: "RISCV_IOMMU_PC_FSC_PPN = RISCV_IOMMU_ATP_PPN_FIELD"

text \<open>MSI page table entries.\<close>

definition RISCV_IOMMU_MSI_PTE_V :: "64 word" where [bits]: "RISCV_IOMMU_MSI_PTE_V = 0x1"
definition RISCV_IOMMU_MSI_PTE_M :: "64 word" where [bits]: "RISCV_IOMMU_MSI_PTE_M = 0x6"
definition RISCV_IOMMU_MSI_PTE_M_MRIF :: "64 word" where [bits]: "RISCV_IOMMU_MSI_PTE_M_MRIF = 1"
definition RISCV_IOMMU_MSI_PTE_M_BASIC :: "64 word" where [bits]: "RISCV_IOMMU_MSI_PTE_M_BASIC = 3"
definition RISCV_IOMMU_MSI_PTE_MRIF_ADDR :: "64 word" where [bits]: "RISCV_IOMMU_MSI_PTE_MRIF_ADDR = 0x3FFFFFFFFFFF80"
definition RISCV_IOMMU_MSI_PTE_PPN :: "64 word" where [bits]: "RISCV_IOMMU_MSI_PTE_PPN = RISCV_IOMMU_PPN_FIELD"
definition RISCV_IOMMU_MSI_PTE_C :: "64 word" where [bits]: "RISCV_IOMMU_MSI_PTE_C = 0x8000000000000000"
definition RISCV_IOMMU_MSI_MRIF_NID :: "64 word" where [bits]: "RISCV_IOMMU_MSI_MRIF_NID = 0x3FF"
definition RISCV_IOMMU_MSI_MRIF_NPPN :: "64 word" where [bits]: "RISCV_IOMMU_MSI_MRIF_NPPN = RISCV_IOMMU_PPN_FIELD"
definition RISCV_IOMMU_MSI_MRIF_NID_MSB :: "64 word" where [bits]: "RISCV_IOMMU_MSI_MRIF_NID_MSB = 0x1000000000000000"

text \<open>Fault queue record header: CAUSE 11:0, PID 31:12, PV 32, PRIV 33, TTYPE 39:34, DID 63:40.\<close>

definition RISCV_IOMMU_FQ_HDR_CAUSE :: "64 word" where [bits]: "RISCV_IOMMU_FQ_HDR_CAUSE = 0xFFF"
definition RISCV_IOMMU_FQ_HDR_PID :: "64 word" where [bits]: "RISCV_IOMMU_FQ_HDR_PID = 0xFFFFF000"
definition RISCV_IOMMU_FQ_HDR_PV :: "64 word" where [bits]: "RISCV_IOMMU_FQ_HDR_PV = 0x100000000"
definition RISCV_IOMMU_FQ_HDR_TTYPE :: "64 word" where [bits]: "RISCV_IOMMU_FQ_HDR_TTYPE = 0xFC00000000"
definition RISCV_IOMMU_FQ_HDR_DID :: "64 word" where [bits]: "RISCV_IOMMU_FQ_HDR_DID = 0xFFFFFF0000000000"

definition RISCV_IOMMU_FQ_TTYPE_UADDR_RD :: "32 word" where [bits]: "RISCV_IOMMU_FQ_TTYPE_UADDR_RD = 2"
definition RISCV_IOMMU_FQ_TTYPE_UADDR_WR :: "32 word" where [bits]: "RISCV_IOMMU_FQ_TTYPE_UADDR_WR = 3"

definition RISCV_IOMMU_FQ_CAUSE_DMA_DISABLED :: "32 word" where [bits]: "RISCV_IOMMU_FQ_CAUSE_DMA_DISABLED = 256"
definition RISCV_IOMMU_FQ_CAUSE_DDT_LOAD_FAULT :: "32 word" where [bits]: "RISCV_IOMMU_FQ_CAUSE_DDT_LOAD_FAULT = 257"
definition RISCV_IOMMU_FQ_CAUSE_DDT_INVALID :: "32 word" where [bits]: "RISCV_IOMMU_FQ_CAUSE_DDT_INVALID = 258"
definition RISCV_IOMMU_FQ_CAUSE_DDT_MISCONFIGURED :: "32 word" where [bits]: "RISCV_IOMMU_FQ_CAUSE_DDT_MISCONFIGURED = 259"
definition RISCV_IOMMU_FQ_CAUSE_TTYPE_BLOCKED :: "32 word" where [bits]: "RISCV_IOMMU_FQ_CAUSE_TTYPE_BLOCKED = 260"
definition RISCV_IOMMU_FQ_CAUSE_MSI_LOAD_FAULT :: "32 word" where [bits]: "RISCV_IOMMU_FQ_CAUSE_MSI_LOAD_FAULT = 261"
definition RISCV_IOMMU_FQ_CAUSE_MSI_INVALID :: "32 word" where [bits]: "RISCV_IOMMU_FQ_CAUSE_MSI_INVALID = 262"
definition RISCV_IOMMU_FQ_CAUSE_MSI_MISCONFIGURED :: "32 word" where [bits]: "RISCV_IOMMU_FQ_CAUSE_MSI_MISCONFIGURED = 263"
definition RISCV_IOMMU_FQ_CAUSE_PDT_LOAD_FAULT :: "32 word" where [bits]: "RISCV_IOMMU_FQ_CAUSE_PDT_LOAD_FAULT = 265"
definition RISCV_IOMMU_FQ_CAUSE_PDT_INVALID :: "32 word" where [bits]: "RISCV_IOMMU_FQ_CAUSE_PDT_INVALID = 266"
definition RISCV_IOMMU_FQ_CAUSE_PDT_MISCONFIGURED :: "32 word" where [bits]: "RISCV_IOMMU_FQ_CAUSE_PDT_MISCONFIGURED = 267"
definition RISCV_IOMMU_FQ_CAUSE_DDT_CORRUPTED :: "32 word" where [bits]: "RISCV_IOMMU_FQ_CAUSE_DDT_CORRUPTED = 268"
definition RISCV_IOMMU_FQ_CAUSE_MSI_PT_CORRUPTED :: "32 word" where [bits]: "RISCV_IOMMU_FQ_CAUSE_MSI_PT_CORRUPTED = 270"
definition RISCV_IOMMU_FQ_CAUSE_INTERNAL_DP_ERROR :: "32 word" where [bits]: "RISCV_IOMMU_FQ_CAUSE_INTERNAL_DP_ERROR = 272"
definition RISCV_IOMMU_FQ_CAUSE_MSI_WR_FAULT :: "32 word" where [bits]: "RISCV_IOMMU_FQ_CAUSE_MSI_WR_FAULT = 273"

text \<open>Page request records and command queue records.\<close>

definition RISCV_IOMMU_PREQ_HDR_DID :: "64 word" where [bits]: "RISCV_IOMMU_PREQ_HDR_DID = 0xFFFFFF0000000000"

definition RISCV_IOMMU_CMD_OPCODE :: "64 word" where [bits]: "RISCV_IOMMU_CMD_OPCODE = 0x7F"
definition RISCV_IOMMU_CMD_FUNC :: "64 word" where [bits]: "RISCV_IOMMU_CMD_FUNC = 0x380"

definition RISCV_IOMMU_CMD_IOTINVAL_OPCODE :: "64 word" where [bits]: "RISCV_IOMMU_CMD_IOTINVAL_OPCODE = 1"
definition RISCV_IOMMU_CMD_IOTINVAL_FUNC_VMA :: "64 word" where [bits]: "RISCV_IOMMU_CMD_IOTINVAL_FUNC_VMA = 0"
definition RISCV_IOMMU_CMD_IOTINVAL_FUNC_GVMA :: "64 word" where [bits]: "RISCV_IOMMU_CMD_IOTINVAL_FUNC_GVMA = 1"
definition RISCV_IOMMU_CMD_IOTINVAL_PSCV :: "64 word" where [bits]: "RISCV_IOMMU_CMD_IOTINVAL_PSCV = 0x100000000"

definition RISCV_IOMMU_CMD_IOFENCE_OPCODE :: "64 word" where [bits]: "RISCV_IOMMU_CMD_IOFENCE_OPCODE = 2"
definition RISCV_IOMMU_CMD_IOFENCE_FUNC_C :: "64 word" where [bits]: "RISCV_IOMMU_CMD_IOFENCE_FUNC_C = 0"
definition RISCV_IOMMU_CMD_IOFENCE_AV :: "64 word" where [bits]: "RISCV_IOMMU_CMD_IOFENCE_AV = 0x400"
definition RISCV_IOMMU_CMD_IOFENCE_DATA :: "64 word" where [bits]: "RISCV_IOMMU_CMD_IOFENCE_DATA = 0xFFFFFFFF00000000"

definition RISCV_IOMMU_CMD_IODIR_OPCODE :: "64 word" where [bits]: "RISCV_IOMMU_CMD_IODIR_OPCODE = 3"
definition RISCV_IOMMU_CMD_IODIR_FUNC_INVAL_DDT :: "64 word" where [bits]: "RISCV_IOMMU_CMD_IODIR_FUNC_INVAL_DDT = 0"
definition RISCV_IOMMU_CMD_IODIR_FUNC_INVAL_PDT :: "64 word" where [bits]: "RISCV_IOMMU_CMD_IODIR_FUNC_INVAL_PDT = 1"
definition RISCV_IOMMU_CMD_IODIR_PID :: "64 word" where [bits]: "RISCV_IOMMU_CMD_IODIR_PID = 0xFFFFF000"
definition RISCV_IOMMU_CMD_IODIR_DV :: "64 word" where [bits]: "RISCV_IOMMU_CMD_IODIR_DV = 0x200000000"
definition RISCV_IOMMU_CMD_IODIR_DID :: "64 word" where [bits]: "RISCV_IOMMU_CMD_IODIR_DID = 0xFFFFFF0000000000"

definition LIMIT_CACHE_CTX :: nat where [bits]: "LIMIT_CACHE_CTX = 128"

text \<open>
  Modelled from the spec: \<^verbatim>\<open>TARGET_PAGE_BITS\<close> and \<^verbatim>\<open>TARGET_PAGE_MASK\<close> belong to the host
  framework. Pages are 4 KiB (\<^verbatim>\<open>PPN << 12\<close>, \<^verbatim>\<open>GPA >> 12\<close>), and \<^verbatim>\<open>TARGET_PAGE_MASK\<close> selects the
  page-number bits of an address: the source uses its complement both as the translation
  entry's \<^verbatim>\<open>addr_mask\<close> and to confine directory indices to one page.
\<close>

definition TARGET_PAGE_BITS :: nat where
  "TARGET_PAGE_BITS = 12"

definition TARGET_PAGE_MASK :: "64 word" where
  "TARGET_PAGE_MASK = NOT (mask TARGET_PAGE_BITS)"

definition PPN_PHYS :: "64 word \<Rightarrow> 64 word" where
  "PPN_PHYS ppn = push_bit TARGET_PAGE_BITS ppn"

definition PPN_DOWN :: "64 word \<Rightarrow> 64 word" where
  "PPN_DOWN phy = drop_bit TARGET_PAGE_BITS phy"

text \<open>
  Modelled from the spec: the field macros of \<^verbatim>\<open>cpu_bits.h\<close>. A field is read by masking and
  dividing by the lowest set bit of the mask, and written by multiplying with it.
\<close>

definition get_field :: "64 word \<Rightarrow> 64 word \<Rightarrow> 64 word" where
  "get_field reg msk = (reg AND msk) div (msk AND NOT (push_bit 1 msk))"

definition set_field :: "64 word \<Rightarrow> 64 word \<Rightarrow> 64 word \<Rightarrow> 64 word" where
  "set_field reg msk val = (reg AND NOT msk) OR ((val * (msk AND NOT (push_bit 1 msk))) AND msk)"

section \<open>Byte arrays and guest memory\<close>

text \<open>
  Modelled from the spec: the little-endian accessors of the host framework
  (\<^verbatim>\<open>lduw_le_p\<close>, \<^verbatim>\<open>ldl_le_p\<close>, \<^verbatim>\<open>ldq_le_p\<close> and the matching stores). A register
  array is a function from byte offsets to bytes.
\<close>

definition lduw_le_p :: "(nat \<Rightarrow> 8 word) \<Rightarrow> nat \<Rightarrow> 16 word" where
  "lduw_le_p p i = ucast (p i) OR push_bit 8 (ucast (p (i + 1)))"

definition ldl_le_p :: "(nat \<Rightarrow> 8 word) \<Rightarrow> nat \<Rightarrow> 32 word" where
  "ldl_le_p p i = ucast (p i) OR push_bit 8 (ucast (p (i + 1)))
     OR push_bit 16 (ucast (p (i + 2))) OR push_bit 24 (ucast (p (i + 3)))"

definition ldq_le_p :: "(nat \<Rightarrow> 8 word) \<Rightarrow> nat \<Rightarrow> 64 word" where
  "ldq_le_p p i = ucast (p i) OR push_bit 8 (ucast (p (i + 1)))
     OR push_bit 16 (ucast (p (i + 2))) OR push_bit 24 (ucast (p (i + 3)))
     OR push_bit 32 (ucast (p (i + 4))) OR push_bit 40 (ucast (p (i + 5)))
     OR push_bit 48 (ucast (p (i + 6))) OR push_bit 56 (ucast (p (i + 7)))"

definition stw_le_p :: "(nat \<Rightarrow> 8 word) \<Rightarrow> nat \<Rightarrow> 16 word \<Rightarrow> (nat \<Rightarrow> 8 word)" where
  "stw_le_p p i v = p(i := ucast v, i + 1 := ucast (drop_bit 8 v))"

definition stl_le_p :: "(nat \<Rightarrow> 8 word) \<Rightarrow> nat \<Rightarrow> 32 word \<Rightarrow> (nat \<Rightarrow> 8 word)" where
  "stl_le_p p i v = p(i := ucast v, i + 1 := ucast (drop_bit 8 v),
     i + 2 := ucast (drop_bit 16 v), i + 3 := ucast (drop_bit 24 v))"

definition stq_le_p :: "(nat \<Rightarrow> 8 word) \<Rightarrow> nat \<Rightarrow> 64 word \<Rightarrow> (nat \<Rightarrow> 8 word)" where
  "stq_le_p p i v = p(i := ucast v, i + 1 := ucast (drop_bit 8 v),
     i + 2 := ucast (drop_bit 16 v), i + 3 := ucast (drop_bit 24 v),
     i + 4 := ucast (drop_bit 32 v), i + 5 := ucast (drop_bit 40 v),
     i + 6 := ucast (drop_bit 48 v), i + 7 := ucast (drop_bit 56 v))"

text \<open>
  Guest memory is a function from physical addresses to bytes. Multi-byte values are laid
  out little-endian, as on the hosts the device model supports.
\<close>

primrec mem_read :: "(64 word \<Rightarrow> 8 word) \<Rightarrow> 64 word \<Rightarrow> nat \<Rightarrow> 8 word list" where
  "mem_read m a 0 = []"
| "mem_read m a (Suc n) = m a # mem_read m (a + 1) n"

primrec mem_write :: "(64 word \<Rightarrow> 8 word) \<Rightarrow> 64 word \<Rightarrow> 8 word list \<Rightarrow> (64 word \<Rightarrow> 8 word)" where
  "mem_write m a [] = m"
| "mem_write m a (b # bs) = mem_write (m(a := b)) (a + 1) bs"

primrec le_word :: "8 word list \<Rightarrow> 64 word" where
  "le_word [] = 0"
| "le_word (b # bs) = ucast b OR push_bit 8 (le_word bs)"

primrec le_bytes :: "nat \<Rightarrow> 64 word \<Rightarrow> 8 word list" where
  "le_bytes 0 v = []"
| "le_bytes (Suc n) v = ucast v # le_bytes n (drop_bit 8 v)"

datatype MemTxResult = MEMTX_OK | MEMTX_ERROR | MEMTX_DECODE_ERROR | MEMTX_ACCESS_ERROR

section \<open>Device state\<close>

record RISCVIOMMUContext =
  devid :: "24 word"
  process_id :: "20 word"
  tc :: "64 word"
  ta :: "64 word"
  msi_addr_mask :: "64 word"
  msi_addr_pattern :: "64 word"
  msiptp :: "64 word"

text \<open>
  The device state. \<open>notify\<close> tells whether the interrupt callback is installed and
  \<open>raised\<close> lists the interrupt lines it was called with, latest first. \<open>target_mem\<close> is
  the downstream memory and \<open>target_res\<close> the host's answer to an access of each byte.
\<close>

record RISCVIOMMUState =
  regs_rw :: "nat \<Rightarrow> 8 word"
  regs_wc :: "nat \<Rightarrow> 8 word"
  regs_ro :: "nat \<Rightarrow> 8 word"
  cap :: "64 word"
  ddtp :: "64 word"
  enable_msi :: bool
  cq_addr :: "64 word"
  cq_mask :: "32 word"
  fq_addr :: "64 word"
  fq_mask :: "32 word"
  pq_addr :: "64 word"
  pq_mask :: "32 word"
  ctx_cache :: "RISCVIOMMUContext list"
  notify :: bool
  raised :: "nat list"
  target_mem :: "64 word \<Rightarrow> 8 word"
  target_res :: "64 word \<Rightarrow> MemTxResult"

text \<open>
  Modelled from the spec: the DMA primitives of the host framework (read or write N bytes
  at a host physical address). An access succeeds when the host answers \<open>MEMTX_OK\<close> for
  each of its bytes and otherwise returns the first other answer; a failed write stores
  nothing.
\<close>

primrec dma_result :: "(64 word \<Rightarrow> MemTxResult) \<Rightarrow> 64 word \<Rightarrow> nat \<Rightarrow> MemTxResult" where
  "dma_result r a 0 = MEMTX_OK"
| "dma_result r a (Suc n) = (if r a = MEMTX_OK then dma_result r (a + 1) n else r a)"

definition dma_memory_read :: "RISCVIOMMUState \<Rightarrow> 64 word \<Rightarrow> nat \<Rightarrow> MemTxResult \<times> 8 word list" where
  "dma_memory_read s addr n = (dma_result (target_res s) addr n, mem_read (target_mem s) addr n)"

definition dma_memory_write :: "RISCVIOMMUState \<Rightarrow> 64 word \<Rightarrow> 8 word list \<Rightarrow> MemTxResult \<times> RISCVIOMMUState" where
  "dma_memory_write s addr bs =
     (let res = dma_result (target_res s) addr (length bs)
      in (res, if res = MEMTX_OK then s\<lparr>target_mem := mem_write (target_mem s) addr bs\<rparr> else s))"

text \<open>
  Modelled from the spec: the register helpers of \<^verbatim>\<open>riscv-iommu.h\<close>. They read and write
  the \<open>rw\<close> array directly; \<open>riscv_iommu_reg_mod32\<close> sets and clears bits and returns the
  previous value.
\<close>

definition riscv_iommu_reg_get32 :: "RISCVIOMMUState \<Rightarrow> nat \<Rightarrow> 32 word" where
  "riscv_iommu_reg_get32 s idx = ldl_le_p (regs_rw s) idx"

definition riscv_iommu_reg_set32 :: "RISCVIOMMUState \<Rightarrow> nat \<Rightarrow> 32 word \<Rightarrow> RISCVIOMMUState" where
  "riscv_iommu_reg_set32 s idx v = s\<lparr>regs_rw := stl_le_p (regs_rw s) idx v\<rparr>"

definition riscv_iommu_reg_mod32 ::
  "RISCVIOMMUState \<Rightarrow> nat \<Rightarrow> 32 word \<Rightarrow> 32 word \<Rightarrow> 32 word \<times> RISCVIOMMUState" where
  "riscv_iommu_reg_mod32 s idx setv clrv =
     (let val = ldl_le_p (regs_rw s) idx
      in (val, s\<lparr>regs_rw := stl_le_p (regs_rw s) idx ((val AND NOT clrv) OR setv)\<rparr>))"

definition riscv_iommu_reg_get64 :: "RISCVIOMMUState \<Rightarrow> nat \<Rightarrow> 64 word" where
  "riscv_iommu_reg_get64 s idx = ldq_le_p (regs_rw s) idx"

definition riscv_iommu_reg_set64 :: "RISCVIOMMUState \<Rightarrow> nat \<Rightarrow> 64 word \<Rightarrow> RISCVIOMMUState" where
  "riscv_iommu_reg_set64 s idx v = s\<lparr>regs_rw := stq_le_p (regs_rw s) idx v\<rparr>"

section \<open>Interrupts and the fault and page-request queues\<close>

definition riscv_iommu_notify :: "RISCVIOMMUState \<Rightarrow> nat \<Rightarrow> RISCVIOMMUState" where
  "riscv_iommu_notify s vec =
     (let fctl = riscv_iommu_reg_get32 s RISCV_IOMMU_REG_FCTL
      in if fctl AND RISCV_IOMMU_FCTL_WSI \<noteq> 0 \<or> \<not> notify s then s
         else
           let (ipsr, s1) = riscv_iommu_reg_mod32 s RISCV_IOMMU_REG_IPSR (push_bit vec 1) 0;
               ivec = riscv_iommu_reg_get32 s1 RISCV_IOMMU_REG_IVEC
           in if ipsr AND push_bit vec 1 = 0
              then s1\<lparr>raised := unat (drop_bit (vec * 4) ivec AND 0x0F) # raised s1\<rparr>
              else s1)"

record riscv_iommu_fq_record =
  fq_hdr :: "64 word"
  fq_reserved :: "64 word"
  fq_iotval :: "64 word"
  fq_iotval2 :: "64 word"

record riscv_iommu_pq_record =
  pq_hdr :: "64 word"
  pq_payload :: "64 word"

definition fq_record_bytes :: "riscv_iommu_fq_record \<Rightarrow> 8 word list" where
  "fq_record_bytes ev = le_bytes 8 (fq_hdr ev) @ le_bytes 8 (fq_reserved ev)
     @ le_bytes 8 (fq_iotval ev) @ le_bytes 8 (fq_iotval2 ev)"

definition pq_record_bytes :: "riscv_iommu_pq_record \<Rightarrow> 8 word list" where
  "pq_record_bytes pr = le_bytes 8 (pq_hdr pr) @ le_bytes 8 (pq_payload pr)"

definition riscv_iommu_fault :: "RISCVIOMMUState \<Rightarrow> riscv_iommu_fq_record \<Rightarrow> RISCVIOMMUState" where
  "riscv_iommu_fault s ev =
     (let ctrl = riscv_iommu_reg_get32 s RISCV_IOMMU_REG_FQCSR;
          head = riscv_iommu_reg_get32 s RISCV_IOMMU_REG_FQH AND fq_mask s;
          tail = riscv_iommu_reg_get32 s RISCV_IOMMU_REG_FQT AND fq_mask s;
          next = (tail + 1) AND fq_mask s
      in if ctrl AND RISCV_IOMMU_FQCSR_FQON = 0
            \<or> ctrl AND (RISCV_IOMMU_FQCSR_FQOF OR RISCV_IOMMU_FQCSR_FQMF) \<noteq> 0
         then s
         else
           let s1 =
             (if head = next
              then snd (riscv_iommu_reg_mod32 s RISCV_IOMMU_REG_FQCSR RISCV_IOMMU_FQCSR_FQOF 0)
              else
                let addr = fq_addr s + ucast tail * 32
                in case dma_memory_write s addr (fq_record_bytes ev) of
                     (MEMTX_OK, s') \<Rightarrow> riscv_iommu_reg_set32 s' RISCV_IOMMU_REG_FQT next
                   | (_, s') \<Rightarrow>
                       snd (riscv_iommu_reg_mod32 s' RISCV_IOMMU_REG_FQCSR RISCV_IOMMU_FQCSR_FQMF 0))
           in if ctrl AND RISCV_IOMMU_FQCSR_FIE \<noteq> 0
              then riscv_iommu_notify s1 RISCV_IOMMU_INTR_FQ
              else s1)"

definition riscv_iommu_pri :: "RISCVIOMMUState \<Rightarrow> riscv_iommu_pq_record \<Rightarrow> RISCVIOMMUState" where
  "riscv_iommu_pri s pr =
     (let ctrl = riscv_iommu_reg_get32 s RISCV_IOMMU_REG_PQCSR;
          head = riscv_iommu_reg_get32 s RISCV_IOMMU_REG_PQH AND pq_mask s;
          tail = riscv_iommu_reg_get32 s RISCV_IOMMU_REG_PQT AND pq_mask s;
          next = (tail + 1) AND pq_mask s
      in if ctrl AND RISCV_IOMMU_PQCSR_PQON = 0
            \<or> ctrl AND (RISCV_IOMMU_PQCSR_PQOF OR RISCV_IOMMU_PQCSR_PQMF) \<noteq> 0
         then s
         else
           let s1 =
             (if head = next
              then snd (riscv_iommu_reg_mod32 s RISCV_IOMMU_REG_PQCSR RISCV_IOMMU_PQCSR_PQOF 0)
              else
                let addr = pq_addr s + ucast tail * 16
                in case dma_memory_write s addr (pq_record_bytes pr) of
                     (MEMTX_OK, s') \<Rightarrow> riscv_iommu_reg_set32 s' RISCV_IOMMU_REG_PQT next
                   | (_, s') \<Rightarrow>
                       snd (riscv_iommu_reg_mod32 s' RISCV_IOMMU_REG_PQCSR RISCV_IOMMU_PQCSR_PQMF 0))
           in if ctrl AND RISCV_IOMMU_PQCSR_PIE \<noteq> 0
              then riscv_iommu_notify s1 RISCV_IOMMU_INTR_PQ
              else s1)"

section \<open>MSI redirection\<close>

text \<open>Portable bit extraction under a mask (\<^verbatim>\<open>_pext_u64\<close>).\<close>

function pext_u64_loop :: "64 word \<Rightarrow> 64 word \<Rightarrow> 64 word \<Rightarrow> 64 word \<Rightarrow> 64 word" where
  "pext_u64_loop val ext ret rot =
     (if ext \<noteq> 0
      then pext_u64_loop (drop_bit 1 val) (drop_bit 1 ext)
             (if ext AND 1 \<noteq> 0 \<and> val AND 1 \<noteq> 0 then ret OR rot else ret)
             (if ext AND 1 \<noteq> 0 then push_bit 1 rot else rot)
      else ret)"
  by pat_completeness auto
termination
proof (relation "measure (\<lambda>(val, ext, ret, rot). unat ext)")
  show "wf (measure (\<lambda>(val, ext, ret, rot). unat ext))" by simp
next
  fix val ext ret rot :: "64 word"
  assume "ext \<noteq> 0"
  then have "0 < unat ext" by (simp add: unat_gt_0)
  then have "unat ext div 2 < unat ext" by simp
  then have "unat (drop_bit 1 ext) < unat ext"
    by (simp add: drop_bit_eq_div unat_div)
  then show "((drop_bit 1 val, drop_bit 1 ext,
               if ext AND 1 \<noteq> 0 \<and> val AND 1 \<noteq> 0 then ret OR rot else ret,
               if ext AND 1 \<noteq> 0 then push_bit 1 rot else rot),
              (val, ext, ret, rot)) \<in> measure (\<lambda>(val, ext, ret, rot). unat ext)"
    by simp
qed

declare pext_u64_loop.simps [simp del]

definition pext_u64 :: "64 word \<Rightarrow> 64 word \<Rightarrow> 64 word" where
  "pext_u64 val ext = pext_u64_loop val ext 0 1"

definition riscv_iommu_msi_check :: "RISCVIOMMUState \<Rightarrow> RISCVIOMMUContext \<Rightarrow> 64 word \<Rightarrow> bool" where
  "riscv_iommu_msi_check s ctx gpa =
     (if get_field (msiptp ctx) RISCV_IOMMU_DC_MSIPTP_MODE \<noteq> RISCV_IOMMU_DC_MSIPTP_MODE_FLAT
      then False
      else if (PPN_DOWN gpa XOR msi_addr_pattern ctx) AND NOT (msi_addr_mask ctx) \<noteq> 0
      then False
      else True)"

section \<open>Fault reporting\<close>

text \<open>
  The switch of \<^verbatim>\<open>riscv_iommu_report_fault\<close>: with \<open>tc.DTF\<close> set, only the listed causes
  are reported.
\<close>

definition report_fault_suppressed :: "RISCVIOMMUContext \<Rightarrow> 32 word \<Rightarrow> bool" where
  "report_fault_suppressed ctx cause =
     (if tc ctx AND RISCV_IOMMU_DC_TC_DTF \<noteq> 0
      then
        (if cause = RISCV_IOMMU_FQ_CAUSE_DMA_DISABLED
            \<or> cause = RISCV_IOMMU_FQ_CAUSE_DDT_LOAD_FAULT
            \<or> cause = RISCV_IOMMU_FQ_CAUSE_DDT_INVALID
            \<or> cause = RISCV_IOMMU_FQ_CAUSE_DDT_MISCONFIGURED
            \<or> cause = RISCV_IOMMU_FQ_CAUSE_DDT_CORRUPTED
            \<or> cause = RISCV_IOMMU_FQ_CAUSE_INTERNAL_DP_ERROR
            \<or> cause = RISCV_IOMMU_FQ_CAUSE_MSI_WR_FAULT
         then False
         else True)
      else False)"

text \<open>The fault record composed by \<^verbatim>\<open>riscv_iommu_report_fault\<close>.\<close>

definition report_fault_record ::
  "RISCVIOMMUContext \<Rightarrow> 32 word \<Rightarrow> 32 word \<Rightarrow> bool \<Rightarrow> 64 word \<Rightarrow> 64 word \<Rightarrow> riscv_iommu_fq_record" where
  "report_fault_record ctx fault_type cause pv iotval iotval2 =
     (let hdr0 = set_field 0 RISCV_IOMMU_FQ_HDR_CAUSE (ucast cause);
          hdr1 = set_field hdr0 RISCV_IOMMU_FQ_HDR_TTYPE (ucast fault_type);
          hdr2 = set_field hdr1 RISCV_IOMMU_FQ_HDR_DID (ucast (devid ctx));
          hdr3 = set_field hdr2 RISCV_IOMMU_FQ_HDR_PV 1;
          hdr4 = (if pv then set_field hdr3 RISCV_IOMMU_FQ_HDR_PID (ucast (process_id ctx)) else hdr3)
      in \<lparr>fq_hdr = hdr4, fq_reserved = 0, fq_iotval = iotval, fq_iotval2 = iotval2\<rparr>)"

definition riscv_iommu_report_fault ::
  "RISCVIOMMUState \<Rightarrow> RISCVIOMMUContext \<Rightarrow> 32 word \<Rightarrow> 32 word \<Rightarrow> bool \<Rightarrow> 64 word \<Rightarrow> 64 word
     \<Rightarrow> RISCVIOMMUState" where
  "riscv_iommu_report_fault s ctx fault_type cause pv iotval iotval2 =
     (if report_fault_suppressed ctx cause then s
      else riscv_iommu_fault s (report_fault_record ctx fault_type cause pv iotval iotval2))"

text \<open>The error exit of \<^verbatim>\<open>riscv_iommu_msi_write\<close> (label \<^verbatim>\<open>err\<close>).\<close>

definition msi_write_err ::
  "RISCVIOMMUState \<Rightarrow> RISCVIOMMUContext \<Rightarrow> MemTxResult \<Rightarrow> 32 word \<Rightarrow> MemTxResult \<times> RISCVIOMMUState" where
  "msi_write_err s ctx res cause =
     (res, riscv_iommu_report_fault s ctx RISCV_IOMMU_FQ_TTYPE_UADDR_WR cause (process_id ctx \<noteq> 0) 0 0)"

text \<open>The MRIF part of \<^verbatim>\<open>riscv_iommu_msi_write\<close>: pending bit update and notification.\<close>

definition msi_write_mrif ::
  "RISCVIOMMUState \<Rightarrow> RISCVIOMMUContext \<Rightarrow> 64 word \<Rightarrow> 64 word \<Rightarrow> 64 word \<Rightarrow> 64 word
     \<Rightarrow> MemTxResult \<times> RISCVIOMMUState" where
  "msi_write_mrif s ctx gpa data pte0 pte1 =
     (if data > 2047 \<or> gpa AND 3 \<noteq> 0
      then msi_write_err s ctx MEMTX_ACCESS_ERROR RISCV_IOMMU_FQ_CAUSE_MSI_MISCONFIGURED
      else
        let addr = push_bit 9 (get_field pte0 RISCV_IOMMU_MSI_PTE_MRIF_ADDR)
                     OR drop_bit 3 (data AND 0x7c0);
            bitm = push_bit (unat (data AND 0x03f)) (1 :: 64 word)
        in case dma_memory_read s addr 8 of
             (MEMTX_OK, bs) \<Rightarrow>
               (case dma_memory_write s addr (le_bytes 8 (le_word bs OR bitm)) of
                  (MEMTX_OK, s1) \<Rightarrow>
                    (case dma_memory_read s1 (addr + 8) 8 of
                       (MEMTX_OK, es) \<Rightarrow>
                         if le_word es AND bitm = 0 then (MEMTX_OK, s1)
                         else
                           let naddr = PPN_PHYS (get_field pte1 RISCV_IOMMU_MSI_MRIF_NPPN);
                               n190 = get_field pte1 RISCV_IOMMU_MSI_MRIF_NID
                                        OR push_bit 10 (get_field pte1 RISCV_IOMMU_MSI_MRIF_NID_MSB)
                           in (case dma_memory_write s1 naddr (le_bytes 4 n190) of
                                 (MEMTX_OK, s2) \<Rightarrow> (MEMTX_OK, s2)
                               | (res, s2) \<Rightarrow>
                                   msi_write_err s2 ctx res RISCV_IOMMU_FQ_CAUSE_MSI_WR_FAULT)
                     | (res, _) \<Rightarrow> msi_write_err s1 ctx res RISCV_IOMMU_FQ_CAUSE_MSI_LOAD_FAULT)
                | (res, s1) \<Rightarrow> msi_write_err s1 ctx res RISCV_IOMMU_FQ_CAUSE_MSI_WR_FAULT)
           | (res, _) \<Rightarrow> msi_write_err s ctx res RISCV_IOMMU_FQ_CAUSE_MSI_LOAD_FAULT)"

definition riscv_iommu_msi_write ::
  "RISCVIOMMUState \<Rightarrow> RISCVIOMMUContext \<Rightarrow> 64 word \<Rightarrow> 64 word \<Rightarrow> nat
     \<Rightarrow> MemTxResult \<times> RISCVIOMMUState" where
  "riscv_iommu_msi_write s ctx gpa data sz =
     (if \<not> riscv_iommu_msi_check s ctx gpa
      then msi_write_err s ctx MEMTX_ACCESS_ERROR RISCV_IOMMU_FQ_CAUSE_MSI_LOAD_FAULT
      else
        let intn = pext_u64 (PPN_DOWN gpa) (msi_addr_mask ctx)
        in if intn \<ge> 256
           then msi_write_err s ctx MEMTX_ACCESS_ERROR RISCV_IOMMU_FQ_CAUSE_MSI_LOAD_FAULT
           else
             let addr = PPN_PHYS (get_field (msiptp ctx) RISCV_IOMMU_DC_MSIPTP_PPN) OR (intn * 16)
             in case dma_memory_read s addr 16 of
                  (MEMTX_OK, bs) \<Rightarrow>
                    (let pte0 = le_word (take 8 bs); pte1 = le_word (drop 8 bs)
                     in if pte0 AND RISCV_IOMMU_MSI_PTE_V = 0 \<or> pte0 AND RISCV_IOMMU_MSI_PTE_C \<noteq> 0
                        then msi_write_err s ctx MEMTX_ACCESS_ERROR RISCV_IOMMU_FQ_CAUSE_MSI_INVALID
                        else if get_field pte0 RISCV_IOMMU_MSI_PTE_M = RISCV_IOMMU_MSI_PTE_M_BASIC
                        then
                          (let waddr = PPN_PHYS (get_field pte0 RISCV_IOMMU_MSI_PTE_PPN)
                                         OR (gpa AND TARGET_PAGE_MASK)
                           in case dma_memory_write s waddr (le_bytes sz data) of
                                (MEMTX_OK, s1) \<Rightarrow> (MEMTX_OK, s1)
                              | (res, s1) \<Rightarrow>
                                  msi_write_err s1 ctx res RISCV_IOMMU_FQ_CAUSE_MSI_WR_FAULT)
                        else if get_field pte0 RISCV_IOMMU_MSI_PTE_M = RISCV_IOMMU_MSI_PTE_M_MRIF
                        then msi_write_mrif s ctx gpa data pte0 pte1
                        else msi_write_err s ctx MEMTX_ACCESS_ERROR
                               RISCV_IOMMU_FQ_CAUSE_MSI_MISCONFIGURED)
                | (MEMTX_DECODE_ERROR, _) \<Rightarrow>
                    msi_write_err s ctx MEMTX_DECODE_ERROR RISCV_IOMMU_FQ_CAUSE_MSI_PT_CORRUPTED
                | (res, _) \<Rightarrow> msi_write_err s ctx res RISCV_IOMMU_FQ_CAUSE_MSI_LOAD_FAULT)"

section \<open>Device context fetch\<close>

definition riscv_iommu_validate_device_ctx :: "RISCVIOMMUState \<Rightarrow> RISCVIOMMUContext \<Rightarrow> bool" where
  "riscv_iommu_validate_device_ctx s ctx =
     (if tc ctx AND RISCV_IOMMU_DC_TC_EN_PRI = 0 \<and> tc ctx AND RISCV_IOMMU_DC_TC_PRPR \<noteq> 0
      then False
      else if cap s AND RISCV_IOMMU_CAP_T2GPA = 0 \<and> tc ctx AND RISCV_IOMMU_DC_TC_T2GPA \<noteq> 0
      then False
      else if cap s AND RISCV_IOMMU_CAP_MSI_FLAT \<noteq> 0
              \<and> get_field (msiptp ctx) RISCV_IOMMU_DC_MSIPTP_MODE \<noteq> RISCV_IOMMU_DC_MSIPTP_MODE_OFF
              \<and> get_field (msiptp ctx) RISCV_IOMMU_DC_MSIPTP_MODE \<noteq> RISCV_IOMMU_DC_MSIPTP_MODE_FLAT
      then False
      else if tc ctx AND RISCV_IOMMU_DC_TC_SBE \<noteq> 0
      then False
      else True)"

definition riscv_iommu_validate_process_ctx :: "RISCVIOMMUState \<Rightarrow> RISCVIOMMUContext \<Rightarrow> bool" where
  "riscv_iommu_validate_process_ctx s ctx =
     (if get_field (ta ctx) RISCV_IOMMU_PC_TA_RESERVED \<noteq> 0 then False else True)"

text \<open>
  The device directory tree walk: the loop \<^verbatim>\<open>for (; depth-- > 0; )\<close>. The body sees the
  decremented depth. The result is a fault cause or the address of the leaf page.
\<close>

fun ddt_walk :: "RISCVIOMMUState \<Rightarrow> RISCVIOMMUContext \<Rightarrow> nat \<Rightarrow> nat \<Rightarrow> 64 word \<Rightarrow> 32 word + 64 word" where
  "ddt_walk s ctx dc_fmt 0 addr = Inr addr"
| "ddt_walk s ctx dc_fmt (Suc depth) addr =
     (let split = depth * 9 + 6 + dc_fmt;
          addr1 = addr OR (push_bit 3 (drop_bit split (ucast (devid ctx))) AND NOT TARGET_PAGE_MASK)
      in case dma_memory_read s addr1 8 of
           (MEMTX_OK, bs) \<Rightarrow>
             (let de = le_word bs
              in if de AND RISCV_IOMMU_DDTE_VALID = 0
                 then Inl RISCV_IOMMU_FQ_CAUSE_DDT_INVALID
                 else if de AND NOT (RISCV_IOMMU_DDTE_PPN OR RISCV_IOMMU_DDTE_VALID) \<noteq> 0
                 then Inl RISCV_IOMMU_FQ_CAUSE_DDT_MISCONFIGURED
                 else ddt_walk s ctx dc_fmt depth (PPN_PHYS (get_field de RISCV_IOMMU_DDTE_PPN)))
         | (_, bs) \<Rightarrow> Inl RISCV_IOMMU_FQ_CAUSE_DDT_LOAD_FAULT)"

text \<open>The process directory tree walk: the second loop of \<^verbatim>\<open>riscv_iommu_ctx_fetch\<close>.\<close>

fun pdt_walk :: "RISCVIOMMUState \<Rightarrow> RISCVIOMMUContext \<Rightarrow> nat \<Rightarrow> 64 word \<Rightarrow> 32 word + 64 word" where
  "pdt_walk s ctx 0 addr = Inr addr"
| "pdt_walk s ctx (Suc depth) addr =
     (let split = depth * 9 + 8;
          addr1 = addr OR (push_bit 3 (drop_bit split (ucast (process_id ctx))) AND NOT TARGET_PAGE_MASK)
      in case dma_memory_read s addr1 8 of
           (MEMTX_OK, bs) \<Rightarrow>
             (let de = le_word bs
              in if de AND RISCV_IOMMU_PC_TA_V = 0
                 then Inl RISCV_IOMMU_FQ_CAUSE_PDT_INVALID
                 else pdt_walk s ctx depth (PPN_PHYS (get_field de RISCV_IOMMU_PC_FSC_PPN)))
         | (_, bs) \<Rightarrow> Inl RISCV_IOMMU_FQ_CAUSE_PDT_LOAD_FAULT)"

text \<open>
  The part of \<^verbatim>\<open>riscv_iommu_ctx_fetch\<close> after the device context is loaded: the process
  directory. \<open>mode\<close> is the mode of \<open>ddtp\<close>, as in the source.
\<close>

definition ctx_fetch_pdt ::
  "RISCVIOMMUState \<Rightarrow> RISCVIOMMUContext \<Rightarrow> 64 word \<Rightarrow> 64 word \<Rightarrow> 32 word \<times> RISCVIOMMUContext" where
  "ctx_fetch_pdt s ctx mode addr =
     (if mode > RISCV_IOMMU_DC_FSC_PDTP_MODE_PD20
      then (RISCV_IOMMU_FQ_CAUSE_PDT_MISCONFIGURED, ctx)
      else
        case pdt_walk s ctx (unat (mode - RISCV_IOMMU_DC_FSC_PDTP_MODE_PD8)) addr of
          Inl cause \<Rightarrow> (cause, ctx)
        | Inr addr1 \<Rightarrow>
            (let addr2 = addr1 OR (push_bit 4 (ucast (process_id ctx)) AND NOT TARGET_PAGE_MASK)
             in case dma_memory_read s addr2 16 of
                  (MEMTX_OK, bs) \<Rightarrow>
                    (let ctx1 = ctx\<lparr>ta := le_word (take 8 bs)\<rparr>
                     in if ta ctx1 AND RISCV_IOMMU_PC_TA_V = 0
                        then (RISCV_IOMMU_FQ_CAUSE_PDT_INVALID, ctx1)
                        else if \<not> riscv_iommu_validate_process_ctx s ctx1
                        then (RISCV_IOMMU_FQ_CAUSE_PDT_MISCONFIGURED, ctx1)
                        else (0, ctx1))
                | (_, bs) \<Rightarrow> (RISCV_IOMMU_FQ_CAUSE_PDT_LOAD_FAULT, ctx)))"

text \<open>
  The part of \<^verbatim>\<open>riscv_iommu_ctx_fetch\<close> at the leaf: the device context of \<open>dc_len\<close> bytes is
  read into a zeroed 64-byte structure with the fields \<open>tc\<close>, \<open>iohgatp\<close>, \<open>ta\<close>, \<open>fsc\<close>,
  \<open>msiptp\<close>, \<open>msi_addr_mask\<close>, \<open>msi_addr_pattern\<close> and a reserved word.
\<close>

definition ctx_fetch_dc ::
  "RISCVIOMMUState \<Rightarrow> RISCVIOMMUContext \<Rightarrow> 64 word \<Rightarrow> nat \<Rightarrow> 64 word \<Rightarrow> 32 word \<times> RISCVIOMMUContext" where
  "ctx_fetch_dc s ctx mode dc_len addr0 =
     (let addr = addr0 OR ((ucast (devid ctx) * of_nat dc_len) AND NOT TARGET_PAGE_MASK)
      in case dma_memory_read s addr dc_len of
           (MEMTX_OK, bs) \<Rightarrow>
             (let dc = bs @ replicate (64 - dc_len) 0;
                  ctx1 = ctx\<lparr>tc := le_word (take 8 dc),
                             ta := le_word (take 8 (drop 16 dc)),
                             msiptp := le_word (take 8 (drop 32 dc)),
                             msi_addr_mask := le_word (take 8 (drop 40 dc)),
                             msi_addr_pattern := le_word (take 8 (drop 48 dc))\<rparr>
              in if tc ctx1 AND RISCV_IOMMU_DC_TC_V = 0
                 then (RISCV_IOMMU_FQ_CAUSE_DDT_INVALID, ctx1)
                 else if \<not> riscv_iommu_validate_device_ctx s ctx1
                 then (RISCV_IOMMU_FQ_CAUSE_DDT_MISCONFIGURED, ctx1)
                 else if tc ctx1 AND RISCV_IOMMU_DC_TC_PDTV = 0
                 then (if process_id ctx1 \<noteq> 0
                       then (RISCV_IOMMU_FQ_CAUSE_TTYPE_BLOCKED, ctx1)
                       else (0, ctx1))
                 else ctx_fetch_pdt s ctx1 mode addr)
         | (_, bs) \<Rightarrow> (RISCV_IOMMU_FQ_CAUSE_DDT_LOAD_FAULT, ctx))"

text \<open>
  \<^verbatim>\<open>riscv_iommu_ctx_fetch\<close>: the result is the fault cause (0 on success) and the context as
  the function leaves it. \<open>dc_fmt\<close> is 1 for the base format of 32 bytes and 0 for the
  extended format of 64 bytes.
\<close>

definition riscv_iommu_ctx_fetch ::
  "RISCVIOMMUState \<Rightarrow> RISCVIOMMUContext \<Rightarrow> 32 word \<times> RISCVIOMMUContext" where
  "riscv_iommu_ctx_fetch s ctx =
     (let mode = get_field (ddtp s) RISCV_IOMMU_DDTP_MODE;
          addr = PPN_PHYS (get_field (ddtp s) RISCV_IOMMU_DDTP_PPN);
          dc_fmt = (if enable_msi s then 0 else 1 :: nat);
          dc_len = 64 div 2 ^ dc_fmt
      in if mode = RISCV_IOMMU_DDTP_MODE_OFF
         then (RISCV_IOMMU_FQ_CAUSE_DMA_DISABLED, ctx)
         else if mode = RISCV_IOMMU_DDTP_MODE_BARE
         then (0, ctx\<lparr>tc := RISCV_IOMMU_DC_TC_V, ta := 0, msiptp := 0\<rparr>)
         else if mode \<noteq> RISCV_IOMMU_DDTP_MODE_1LVL \<and> mode \<noteq> RISCV_IOMMU_DDTP_MODE_2LVL
                 \<and> mode \<noteq> RISCV_IOMMU_DDTP_MODE_3LVL
         then (RISCV_IOMMU_FQ_CAUSE_DDT_MISCONFIGURED, ctx)
         else
           let depth = (if mode = RISCV_IOMMU_DDTP_MODE_1LVL then 0
                        else if mode = RISCV_IOMMU_DDTP_MODE_2LVL then 1 else 2 :: nat)
           in if unat (devid ctx) \<ge> 2 ^ (depth * 9 + 6 + (if dc_fmt \<noteq> 0 \<and> depth \<noteq> 2 then 1 else 0))
              then (RISCV_IOMMU_FQ_CAUSE_TTYPE_BLOCKED, ctx)
              else
                case ddt_walk s ctx dc_fmt depth addr of
                  Inl cause \<Rightarrow> (cause, ctx)
                | Inr addr1 \<Rightarrow> ctx_fetch_dc s ctx mode dc_len addr1)"

section \<open>Translation context cache\<close>

text \<open>
  The cache is a GLib hash table keyed by \<open>ctx_equal\<close>: here the list of its entries, with
  at most one entry per key. Adding an entry replaces the entry of the same key.
\<close>

definition ctx_equal :: "RISCVIOMMUContext \<Rightarrow> RISCVIOMMUContext \<Rightarrow> bool" where
  "ctx_equal c1 c2 = (devid c1 = devid c2 \<and> process_id c1 = process_id c2)"

definition g_hash_table_lookup :: "RISCVIOMMUContext list \<Rightarrow> RISCVIOMMUContext \<Rightarrow> RISCVIOMMUContext option" where
  "g_hash_table_lookup cache key = find (\<lambda>c. ctx_equal c key) cache"

definition g_hash_table_add :: "RISCVIOMMUContext list \<Rightarrow> RISCVIOMMUContext \<Rightarrow> RISCVIOMMUContext list" where
  "g_hash_table_add cache c =
     (case g_hash_table_lookup cache c of
        None \<Rightarrow> cache @ [c]
      | Some _ \<Rightarrow> map (\<lambda>c'. if ctx_equal c' c then c else c') cache)"

definition g_hash_table_foreach ::
  "RISCVIOMMUContext list \<Rightarrow> (RISCVIOMMUContext \<Rightarrow> RISCVIOMMUContext \<Rightarrow> RISCVIOMMUContext)
     \<Rightarrow> RISCVIOMMUContext \<Rightarrow> RISCVIOMMUContext list" where
  "g_hash_table_foreach cache func data = map (\<lambda>c. func c data) cache"

definition ctx_inval_devid_procid :: "RISCVIOMMUContext \<Rightarrow> RISCVIOMMUContext \<Rightarrow> RISCVIOMMUContext" where
  "ctx_inval_devid_procid ctx arg =
     (if tc ctx AND RISCV_IOMMU_DC_TC_V \<noteq> 0 \<and> devid ctx = devid arg \<and> process_id ctx = process_id arg
      then ctx\<lparr>tc := tc ctx AND NOT RISCV_IOMMU_DC_TC_V\<rparr>
      else ctx)"

definition ctx_inval_devid :: "RISCVIOMMUContext \<Rightarrow> RISCVIOMMUContext \<Rightarrow> RISCVIOMMUContext" where
  "ctx_inval_devid ctx arg =
     (if tc ctx AND RISCV_IOMMU_DC_TC_V \<noteq> 0 \<and> devid ctx = devid arg
      then ctx\<lparr>tc := tc ctx AND NOT RISCV_IOMMU_DC_TC_V\<rparr>
      else ctx)"

definition ctx_inval_all :: "RISCVIOMMUContext \<Rightarrow> RISCVIOMMUContext \<Rightarrow> RISCVIOMMUContext" where
  "ctx_inval_all ctx arg =
     (if tc ctx AND RISCV_IOMMU_DC_TC_V \<noteq> 0
      then ctx\<lparr>tc := tc ctx AND NOT RISCV_IOMMU_DC_TC_V\<rparr>
      else ctx)"

text \<open>A zeroed context with the key fields set, as the source allocates it.\<close>

definition ctx_key :: "32 word \<Rightarrow> 32 word \<Rightarrow> RISCVIOMMUContext" where
  "ctx_key did pid = \<lparr>devid = ucast did, process_id = ucast pid, tc = 0, ta = 0,
     msi_addr_mask = 0, msi_addr_pattern = 0, msiptp = 0\<rparr>"

definition riscv_iommu_ctx_inval ::
  "RISCVIOMMUState \<Rightarrow> (RISCVIOMMUContext \<Rightarrow> RISCVIOMMUContext \<Rightarrow> RISCVIOMMUContext)
     \<Rightarrow> 32 word \<Rightarrow> 32 word \<Rightarrow> RISCVIOMMUState" where
  "riscv_iommu_ctx_inval s func did pid =
     s\<lparr>ctx_cache := g_hash_table_foreach (ctx_cache s) func (ctx_key did pid)\<rparr>"

text \<open>
  The miss path of \<^verbatim>\<open>riscv_iommu_ctx\<close>: a fresh context is allocated and filled by a
  directory walk; on success it enters the cache, which is replaced by an empty one when
  it has reached its limit; on failure the fault is reported.
\<close>

definition riscv_iommu_ctx_miss ::
  "RISCVIOMMUState \<Rightarrow> 32 word \<Rightarrow> 32 word \<Rightarrow> RISCVIOMMUContext option \<times> RISCVIOMMUState" where
  "riscv_iommu_ctx_miss s did pid =
     (case riscv_iommu_ctx_fetch s (ctx_key did pid) of
        (fault, ctx) \<Rightarrow>
          if fault = 0
          then
            (let cache = (if length (ctx_cache s) \<ge> LIMIT_CACHE_CTX then [] else ctx_cache s)
             in (Some ctx, s\<lparr>ctx_cache := g_hash_table_add cache ctx\<rparr>))
          else
            (None, riscv_iommu_report_fault s ctx RISCV_IOMMU_FQ_TTYPE_UADDR_RD fault (pid \<noteq> 0) 0 0))"

definition riscv_iommu_ctx ::
  "RISCVIOMMUState \<Rightarrow> 32 word \<Rightarrow> 32 word \<Rightarrow> RISCVIOMMUContext option \<times> RISCVIOMMUState" where
  "riscv_iommu_ctx s did pid =
     (case g_hash_table_lookup (ctx_cache s) (ctx_key did pid) of
        Some ctx \<Rightarrow>
          if tc ctx AND RISCV_IOMMU_DC_TC_V \<noteq> 0 then (Some ctx, s)
          else riscv_iommu_ctx_miss s did pid
      | None \<Rightarrow> riscv_iommu_ctx_miss s did pid)"

section \<open>Command interface\<close>

definition riscv_iommu_iofence ::
  "RISCVIOMMUState \<Rightarrow> bool \<Rightarrow> 64 word \<Rightarrow> 32 word \<Rightarrow> MemTxResult \<times> RISCVIOMMUState" where
  "riscv_iommu_iofence s notif addr data =
     (if \<not> notif then (MEMTX_OK, s)
      else dma_memory_write s addr (le_bytes 4 (ucast data)))"

definition riscv_iommu_process_ddtp :: "RISCVIOMMUState \<Rightarrow> RISCVIOMMUState" where
  "riscv_iommu_process_ddtp s =
     (let old_ddtp = ddtp s;
          new_ddtp = riscv_iommu_reg_get64 s RISCV_IOMMU_REG_DDTP;
          new_mode = get_field new_ddtp RISCV_IOMMU_DDTP_MODE;
          old_mode = get_field old_ddtp RISCV_IOMMU_DDTP_MODE;
          ok = (if new_mode = old_mode \<or> new_mode = RISCV_IOMMU_DDTP_MODE_OFF
                   \<or> new_mode = RISCV_IOMMU_DDTP_MODE_BARE
                then True
                else if new_mode = RISCV_IOMMU_DDTP_MODE_1LVL \<or> new_mode = RISCV_IOMMU_DDTP_MODE_2LVL
                        \<or> new_mode = RISCV_IOMMU_DDTP_MODE_3LVL
                then old_mode = RISCV_IOMMU_DDTP_MODE_OFF \<or> old_mode = RISCV_IOMMU_DDTP_MODE_BARE
                else False);
          new_ddtp1 = (if ok
                       then set_field (new_ddtp AND RISCV_IOMMU_DDTP_PPN) RISCV_IOMMU_DDTP_MODE new_mode
                       else old_ddtp)
      in riscv_iommu_reg_set64 (s\<lparr>ddtp := new_ddtp1\<rparr>) RISCV_IOMMU_REG_DDTP new_ddtp1)"

definition RISCV_IOMMU_CMD :: "64 word \<Rightarrow> 64 word \<Rightarrow> 64 word" where
  "RISCV_IOMMU_CMD func opc = push_bit 7 func OR opc"

text \<open>
  One command of \<^verbatim>\<open>riscv_iommu_process_cq_tail\<close>: the \<^verbatim>\<open>switch\<close> on the opcode key. The
  result tells whether the loop goes on to advance the head or leaves through the label
  \<^verbatim>\<open>fault\<close>.
\<close>

datatype cq_step = CQ_NEXT RISCVIOMMUState | CQ_FAULT RISCVIOMMUState

definition cq_cmd_ill :: "RISCVIOMMUState \<Rightarrow> cq_step" where
  "cq_cmd_ill s =
     CQ_FAULT (snd (riscv_iommu_reg_mod32 s RISCV_IOMMU_REG_CQCSR RISCV_IOMMU_CQCSR_CMD_ILL 0))"

definition cq_command :: "RISCVIOMMUState \<Rightarrow> 64 word \<Rightarrow> 64 word \<Rightarrow> cq_step" where
  "cq_command s dword0 dword1 =
     (let cmd_opcode = get_field dword0 (RISCV_IOMMU_CMD_OPCODE OR RISCV_IOMMU_CMD_FUNC)
      in if cmd_opcode = RISCV_IOMMU_CMD RISCV_IOMMU_CMD_IOFENCE_FUNC_C RISCV_IOMMU_CMD_IOFENCE_OPCODE
         then
           (case riscv_iommu_iofence s (dword0 AND RISCV_IOMMU_CMD_IOFENCE_AV \<noteq> 0) dword1
                   (ucast (get_field dword0 RISCV_IOMMU_CMD_IOFENCE_DATA)) of
              (MEMTX_OK, s1) \<Rightarrow> CQ_NEXT s1
            | (_, s1) \<Rightarrow>
                CQ_FAULT (snd (riscv_iommu_reg_mod32 s1 RISCV_IOMMU_REG_CQCSR RISCV_IOMMU_CQCSR_CQMF 0)))
         else if cmd_opcode
                   = RISCV_IOMMU_CMD RISCV_IOMMU_CMD_IOTINVAL_FUNC_GVMA RISCV_IOMMU_CMD_IOTINVAL_OPCODE
         then (if dword0 AND RISCV_IOMMU_CMD_IOTINVAL_PSCV \<noteq> 0 then cq_cmd_ill s else CQ_NEXT s)
         else if cmd_opcode
                   = RISCV_IOMMU_CMD RISCV_IOMMU_CMD_IOTINVAL_FUNC_VMA RISCV_IOMMU_CMD_IOTINVAL_OPCODE
         then CQ_NEXT s
         else if cmd_opcode
                   = RISCV_IOMMU_CMD RISCV_IOMMU_CMD_IODIR_FUNC_INVAL_DDT RISCV_IOMMU_CMD_IODIR_OPCODE
         then CQ_NEXT (riscv_iommu_ctx_inval s
                 (if dword0 AND RISCV_IOMMU_CMD_IODIR_DV = 0 then ctx_inval_all else ctx_inval_devid)
                 (ucast (get_field dword0 RISCV_IOMMU_CMD_IODIR_DID)) 0)
         else if cmd_opcode
                   = RISCV_IOMMU_CMD RISCV_IOMMU_CMD_IODIR_FUNC_INVAL_PDT RISCV_IOMMU_CMD_IODIR_OPCODE
         then (if dword0 AND RISCV_IOMMU_CMD_IODIR_DV = 0 then cq_cmd_ill s
               else CQ_NEXT (riscv_iommu_ctx_inval s ctx_inval_devid_procid
                       (ucast (get_field dword0 RISCV_IOMMU_CMD_IODIR_DID))
                       (ucast (get_field dword0 RISCV_IOMMU_CMD_IODIR_PID))))
         else cq_cmd_ill s)"

text \<open>
  The loop \<^verbatim>\<open>while (tail != head)\<close>. The result tells whether the loop left through the
  label \<^verbatim>\<open>fault\<close>. The loop need not end for a mask that is not of the form \<open>2^k - 1\<close>.
\<close>

partial_function (option) cq_loop ::
  "RISCVIOMMUState \<Rightarrow> 32 word \<Rightarrow> 32 word \<Rightarrow> (bool \<times> RISCVIOMMUState) option" where
  "cq_loop s tail head =
     (if tail \<noteq> head
      then
        (case dma_memory_read s (cq_addr s + ucast head * 16) 16 of
           (MEMTX_OK, bs) \<Rightarrow>
             (case cq_command s (le_word (take 8 bs)) (le_word (drop 8 bs)) of
                CQ_NEXT s1 \<Rightarrow>
                  cq_loop (riscv_iommu_reg_set32 s1 RISCV_IOMMU_REG_CQH ((head + 1) AND cq_mask s1))
                    tail ((head + 1) AND cq_mask s1)
              | CQ_FAULT s1 \<Rightarrow> Some (True, s1))
         | (_, bs) \<Rightarrow>
             Some (True, snd (riscv_iommu_reg_mod32 s RISCV_IOMMU_REG_CQCSR RISCV_IOMMU_CQCSR_CQMF 0)))
      else Some (False, s))"

definition riscv_iommu_process_cq_tail :: "RISCVIOMMUState \<Rightarrow> RISCVIOMMUState option" where
  "riscv_iommu_process_cq_tail s =
     (let ctrl = riscv_iommu_reg_get32 s RISCV_IOMMU_REG_CQCSR;
          tail = riscv_iommu_reg_get32 s RISCV_IOMMU_REG_CQT AND cq_mask s;
          head = riscv_iommu_reg_get32 s RISCV_IOMMU_REG_CQH AND cq_mask s
      in if ctrl AND RISCV_IOMMU_CQCSR_CQON = 0
            \<or> ctrl AND (RISCV_IOMMU_CQCSR_CMD_ILL OR RISCV_IOMMU_CQCSR_CQMF) \<noteq> 0
         then Some s
         else
           case cq_loop s tail head of
             None \<Rightarrow> None
           | Some (fault, s1) \<Rightarrow>
               Some (if fault \<and> ctrl AND RISCV_IOMMU_CQCSR_CIE \<noteq> 0
                     then riscv_iommu_notify s1 RISCV_IOMMU_INTR_CQ
                     else s1))"

definition riscv_iommu_process_cq_control :: "RISCVIOMMUState \<Rightarrow> RISCVIOMMUState" where
  "riscv_iommu_process_cq_control s =
     (let ctrl = riscv_iommu_reg_get32 s RISCV_IOMMU_REG_CQCSR;
          enable = (ctrl AND RISCV_IOMMU_CQCSR_CQEN \<noteq> 0);
          active = (ctrl AND RISCV_IOMMU_CQCSR_CQON \<noteq> 0)
      in if enable \<and> \<not> active
         then
           (let base = riscv_iommu_reg_get64 s RISCV_IOMMU_REG_CQB;
                m = ucast (push_bit (unat (get_field base RISCV_IOMMU_CQB_LOG2SZ)) (2 :: 64 word) - 1);
                s1 = s\<lparr>cq_mask := m, cq_addr := PPN_PHYS (get_field base RISCV_IOMMU_CQB_PPN)\<rparr>;
                s2 = s1\<lparr>regs_ro := stl_le_p (regs_ro s1) RISCV_IOMMU_REG_CQT (NOT m)\<rparr>;
                s3 = s2\<lparr>regs_rw := stl_le_p (regs_rw s2) RISCV_IOMMU_REG_CQH 0\<rparr>;
                s4 = s3\<lparr>regs_rw := stl_le_p (regs_rw s3) RISCV_IOMMU_REG_CQT 0\<rparr>
            in snd (riscv_iommu_reg_mod32 s4 RISCV_IOMMU_REG_CQCSR RISCV_IOMMU_CQCSR_CQON
                     (RISCV_IOMMU_CQCSR_BUSY OR RISCV_IOMMU_CQCSR_CQMF OR RISCV_IOMMU_CQCSR_CMD_ILL
                        OR RISCV_IOMMU_CQCSR_CMD_TO OR RISCV_IOMMU_CQCSR_FENCE_W_IP)))
         else if \<not> enable \<and> active
         then
           (let s1 = s\<lparr>regs_ro := stl_le_p (regs_ro s) RISCV_IOMMU_REG_CQT (NOT 0)\<rparr>
            in snd (riscv_iommu_reg_mod32 s1 RISCV_IOMMU_REG_CQCSR 0
                     (RISCV_IOMMU_CQCSR_BUSY OR RISCV_IOMMU_CQCSR_CQON)))
         else snd (riscv_iommu_reg_mod32 s RISCV_IOMMU_REG_CQCSR 0 RISCV_IOMMU_CQCSR_BUSY))"

definition riscv_iommu_process_fq_control :: "RISCVIOMMUState \<Rightarrow> RISCVIOMMUState" where
  "riscv_iommu_process_fq_control s =
     (let ctrl = riscv_iommu_reg_get32 s RISCV_IOMMU_REG_FQCSR;
          enable = (ctrl AND RISCV_IOMMU_FQCSR_FQEN \<noteq> 0);
          active = (ctrl AND RISCV_IOMMU_FQCSR_FQON \<noteq> 0)
      in if enable \<and> \<not> active
         then
           (let base = riscv_iommu_reg_get64 s RISCV_IOMMU_REG_FQB;
                m = ucast (push_bit (unat (get_field base RISCV_IOMMU_FQB_LOG2SZ)) (2 :: 64 word) - 1);
                s1 = s\<lparr>fq_mask := m, fq_addr := PPN_PHYS (get_field base RISCV_IOMMU_FQB_PPN)\<rparr>;
                s2 = s1\<lparr>regs_ro := stl_le_p (regs_ro s1) RISCV_IOMMU_REG_FQH (NOT m)\<rparr>;
                s3 = s2\<lparr>regs_rw := stl_le_p (regs_rw s2) RISCV_IOMMU_REG_FQH 0\<rparr>;
                s4 = s3\<lparr>regs_rw := stl_le_p (regs_rw s3) RISCV_IOMMU_REG_FQT 0\<rparr>
            in snd (riscv_iommu_reg_mod32 s4 RISCV_IOMMU_REG_FQCSR RISCV_IOMMU_FQCSR_FQON
                     (RISCV_IOMMU_FQCSR_BUSY OR RISCV_IOMMU_FQCSR_FQMF OR RISCV_IOMMU_FQCSR_FQOF)))
         else if \<not> enable \<and> active
         then
           (let s1 = s\<lparr>regs_ro := stl_le_p (regs_ro s) RISCV_IOMMU_REG_FQH (NOT 0)\<rparr>
            in snd (riscv_iommu_reg_mod32 s1 RISCV_IOMMU_REG_FQCSR 0
                     (RISCV_IOMMU_FQCSR_BUSY OR RISCV_IOMMU_FQCSR_FQON)))
         else snd (riscv_iommu_reg_mod32 s RISCV_IOMMU_REG_FQCSR 0 RISCV_IOMMU_FQCSR_BUSY))"

definition riscv_iommu_process_pq_control :: "RISCVIOMMUState \<Rightarrow> RISCVIOMMUState" where
  "riscv_iommu_process_pq_control s =
     (let ctrl = riscv_iommu_reg_get32 s RISCV_IOMMU_REG_PQCSR;
          enable = (ctrl AND RISCV_IOMMU_PQCSR_PQEN \<noteq> 0);
          active = (ctrl AND RISCV_IOMMU_PQCSR_PQON \<noteq> 0)
      in if enable \<and> \<not> active
         then
           (let base = riscv_iommu_reg_get64 s RISCV_IOMMU_REG_PQB;
                m = ucast (push_bit (unat (get_field base RISCV_IOMMU_PQB_LOG2SZ)) (2 :: 64 word) - 1);
                s1 = s\<lparr>pq_mask := m, pq_addr := PPN_PHYS (get_field base RISCV_IOMMU_PQB_PPN)\<rparr>;
                s2 = s1\<lparr>regs_ro := stl_le_p (regs_ro s1) RISCV_IOMMU_REG_PQH (NOT m)\<rparr>;
                s3 = s2\<lparr>regs_rw := stl_le_p (regs_rw s2) RISCV_IOMMU_REG_PQH 0\<rparr>;
                s4 = s3\<lparr>regs_rw := stl_le_p (regs_rw s3) RISCV_IOMMU_REG_PQT 0\<rparr>
            in snd (riscv_iommu_reg_mod32 s4 RISCV_IOMMU_REG_PQCSR RISCV_IOMMU_PQCSR_PQON
                     (RISCV_IOMMU_PQCSR_BUSY OR RISCV_IOMMU_PQCSR_PQMF OR RISCV_IOMMU_PQCSR_PQOF)))
         else if \<not> enable \<and> active
         then
           (let s1 = s\<lparr>regs_ro := stl_le_p (regs_ro s) RISCV_IOMMU_REG_PQH (NOT 0)\<rparr>
            in snd (riscv_iommu_reg_mod32 s1 RISCV_IOMMU_REG_PQCSR 0
                     (RISCV_IOMMU_PQCSR_BUSY OR RISCV_IOMMU_PQCSR_PQON)))
         else snd (riscv_iommu_reg_mod32 s RISCV_IOMMU_REG_PQCSR 0 RISCV_IOMMU_PQCSR_BUSY))"

section \<open>Register interface\<close>

definition riscv_iommu_update_ipsr :: "RISCVIOMMUState \<Rightarrow> 64 word \<Rightarrow> RISCVIOMMUState" where
  "riscv_iommu_update_ipsr s data =
     (let cqcsr = riscv_iommu_reg_get32 s RISCV_IOMMU_REG_CQCSR;
          fqcsr = riscv_iommu_reg_get32 s RISCV_IOMMU_REG_FQCSR;
          pqcsr = riscv_iommu_reg_get32 s RISCV_IOMMU_REG_PQCSR;
          cip = (data AND ucast RISCV_IOMMU_IPSR_CIP \<noteq> 0
                 \<and> cqcsr AND RISCV_IOMMU_CQCSR_CIE \<noteq> 0
                 \<and> (cqcsr AND RISCV_IOMMU_CQCSR_FENCE_W_IP \<noteq> 0
                      \<or> cqcsr AND RISCV_IOMMU_CQCSR_CMD_ILL \<noteq> 0
                      \<or> cqcsr AND RISCV_IOMMU_CQCSR_CMD_TO \<noteq> 0
                      \<or> cqcsr AND RISCV_IOMMU_CQCSR_CQMF \<noteq> 0));
          fip = (data AND ucast RISCV_IOMMU_IPSR_FIP \<noteq> 0
                 \<and> fqcsr AND RISCV_IOMMU_FQCSR_FIE \<noteq> 0
                 \<and> (fqcsr AND RISCV_IOMMU_FQCSR_FQOF \<noteq> 0
                      \<or> fqcsr AND RISCV_IOMMU_FQCSR_FQMF \<noteq> 0));
          pip = (data AND ucast RISCV_IOMMU_IPSR_PIP \<noteq> 0
                 \<and> pqcsr AND RISCV_IOMMU_PQCSR_PIE \<noteq> 0
                 \<and> (pqcsr AND RISCV_IOMMU_PQCSR_PQOF \<noteq> 0
                      \<or> pqcsr AND RISCV_IOMMU_PQCSR_PQMF \<noteq> 0));
          ipsr_set = (if cip then RISCV_IOMMU_IPSR_CIP else 0)
                       OR (if fip then RISCV_IOMMU_IPSR_FIP else 0)
                       OR (if pip then RISCV_IOMMU_IPSR_PIP else 0);
          ipsr_clr = (if cip then 0 else RISCV_IOMMU_IPSR_CIP)
                       OR (if fip then 0 else RISCV_IOMMU_IPSR_FIP)
                       OR (if pip then 0 else RISCV_IOMMU_IPSR_PIP)
      in snd (riscv_iommu_reg_mod32 s RISCV_IOMMU_REG_IPSR ipsr_set ipsr_clr))"

text \<open>
  The masked update of \<^verbatim>\<open>riscv_iommu_mmio_write\<close>, one branch per access size. The value
  is computed at the width of the access, where the source truncates on the store.
\<close>

definition mmio_masked_update :: "RISCVIOMMUState \<Rightarrow> nat \<Rightarrow> 64 word \<Rightarrow> nat \<Rightarrow> RISCVIOMMUState" where
  "mmio_masked_update s addr data sz =
     (if sz = 1
      then
        (let ro = regs_ro s addr; wc = regs_wc s addr; rw = regs_rw s addr
         in s\<lparr>regs_rw := (regs_rw s)
                (addr := ((rw AND ro) OR (ucast data AND NOT ro)) AND NOT (ucast data AND wc))\<rparr>)
      else if sz = 2
      then
        (let ro = lduw_le_p (regs_ro s) addr; wc = lduw_le_p (regs_wc s) addr;
             rw = lduw_le_p (regs_rw s) addr
         in s\<lparr>regs_rw := stw_le_p (regs_rw s) addr
                (((rw AND ro) OR (ucast data AND NOT ro)) AND NOT (ucast data AND wc))\<rparr>)
      else if sz = 4
      then
        (let ro = ldl_le_p (regs_ro s) addr; wc = ldl_le_p (regs_wc s) addr;
             rw = ldl_le_p (regs_rw s) addr
         in s\<lparr>regs_rw := stl_le_p (regs_rw s) addr
                (((rw AND ro) OR (ucast data AND NOT ro)) AND NOT (ucast data AND wc))\<rparr>)
      else if sz = 8
      then
        (let ro = ldq_le_p (regs_ro s) addr; wc = ldq_le_p (regs_wc s) addr;
             rw = ldq_le_p (regs_rw s) addr
         in s\<lparr>regs_rw := stq_le_p (regs_rw s) addr
                (((rw AND ro) OR (data AND NOT ro)) AND NOT (data AND wc))\<rparr>)
      else s)"

text \<open>The value handed to \<^verbatim>\<open>riscv_iommu_update_ipsr\<close> by a write to IPSR.\<close>

definition mmio_ipsr_val :: "RISCVIOMMUState \<Rightarrow> nat \<Rightarrow> 64 word \<Rightarrow> nat \<Rightarrow> 64 word" where
  "mmio_ipsr_val s addr data sz =
     (if sz = 4
      then
        (let ro = ldl_le_p (regs_ro s) addr; wc = ldl_le_p (regs_wc s) addr;
             rw = ldl_le_p (regs_rw s) addr
         in ucast (((rw AND ro) OR (ucast data AND NOT ro)) AND NOT (ucast data AND wc)))
      else if sz = 8
      then
        (let ro = ldq_le_p (regs_ro s) addr; wc = ldq_le_p (regs_wc s) addr;
             rw = ldq_le_p (regs_rw s) addr
         in ((rw AND ro) OR (data AND NOT ro)) AND NOT (data AND wc))
      else 0)"

text \<open>
  The dispatch table of \<^verbatim>\<open>riscv_iommu_mmio_write\<close>: the process function, the register that
  holds the busy bit, and the busy bit, by the 4-byte aligned offset \<open>regb\<close>.
\<close>

definition mmio_dispatch ::
  "nat \<Rightarrow> (RISCVIOMMUState \<Rightarrow> RISCVIOMMUState option) option \<times> nat \<times> 32 word" where
  "mmio_dispatch regb =
     (if regb = RISCV_IOMMU_REG_DDTP \<or> regb = RISCV_IOMMU_REG_DDTP + 4
      then (Some (\<lambda>s. Some (riscv_iommu_process_ddtp s)), RISCV_IOMMU_REG_DDTP, RISCV_IOMMU_DDTP_BUSY)
      else if regb = RISCV_IOMMU_REG_CQT
      then (Some riscv_iommu_process_cq_tail, regb, 0)
      else if regb = RISCV_IOMMU_REG_CQCSR
      then (Some (\<lambda>s. Some (riscv_iommu_process_cq_control s)), regb, RISCV_IOMMU_CQCSR_BUSY)
      else if regb = RISCV_IOMMU_REG_FQCSR
      then (Some (\<lambda>s. Some (riscv_iommu_process_fq_control s)), regb, RISCV_IOMMU_FQCSR_BUSY)
      else if regb = RISCV_IOMMU_REG_PQCSR
      then (Some (\<lambda>s. Some (riscv_iommu_process_pq_control s)), regb, RISCV_IOMMU_PQCSR_BUSY)
      else (None, regb, 0))"

definition riscv_iommu_mmio_write ::
  "RISCVIOMMUState \<Rightarrow> 64 word \<Rightarrow> 64 word \<Rightarrow> nat \<Rightarrow> (MemTxResult \<times> RISCVIOMMUState) option" where
  "riscv_iommu_mmio_write s addr data sz =
     (let regb = unat (ucast (addr AND NOT 3) :: 32 word)
      in if addr AND (of_nat sz - 1) \<noteq> 0
         then Some (MEMTX_ERROR, s)
         else if addr + of_nat sz > of_nat RISCV_IOMMU_REG_MSI_CONFIG
         then Some (MEMTX_ACCESS_ERROR, s)
         else if regb = RISCV_IOMMU_REG_IPSR
         then Some (MEMTX_OK, riscv_iommu_update_ipsr s (mmio_ipsr_val s (unat addr) data sz))
         else
           case mmio_dispatch regb of
             (process_fn, regb1, busy) \<Rightarrow>
               (let s1 = mmio_masked_update s (unat addr) data sz;
                    s2 = (if busy \<noteq> 0
                          then s1\<lparr>regs_rw := stl_le_p (regs_rw s1) regb1
                                   (ldl_le_p (regs_rw s1) regb1 OR busy)\<rparr>
                          else s1)
                in case process_fn of
                     None \<Rightarrow> Some (MEMTX_OK, s2)
                   | Some f \<Rightarrow> (case f s2 of None \<Rightarrow> None | Some s3 \<Rightarrow> Some (MEMTX_OK, s3))))"

definition riscv_iommu_mmio_read ::
  "RISCVIOMMUState \<Rightarrow> 64 word \<Rightarrow> nat \<Rightarrow> MemTxResult + 64 word" where
  "riscv_iommu_mmio_read s addr sz =
     (if addr AND (of_nat sz - 1) \<noteq> 0
      then Inl MEMTX_ERROR
      else if addr + of_nat sz > of_nat RISCV_IOMMU_REG_MSI_CONFIG
      then Inl MEMTX_ACCESS_ERROR
      else if sz = 1 then Inr (ucast (regs_rw s (unat addr)))
      else if sz = 2 then Inr (ucast (lduw_le_p (regs_rw s) (unat addr)))
      else if sz = 4 then Inr (ucast (ldl_le_p (regs_rw s) (unat addr)))
      else if sz = 8 then Inr (ldq_le_p (regs_rw s) (unat addr))
      else Inl MEMTX_ERROR)"

section \<open>Queue indices\<close>

text \<open>
  The ring indices as \<^verbatim>\<open>riscv_iommu_fault\<close> computes them from the registers, and the
  condition under which it accepts a record: the queue is on and has no pending error.
\<close>

definition fq_head :: "RISCVIOMMUState \<Rightarrow> 32 word" where
  "fq_head s = riscv_iommu_reg_get32 s RISCV_IOMMU_REG_FQH AND fq_mask s"
definition fq_tail :: "RISCVIOMMUState \<Rightarrow> 32 word" where
  "fq_tail s = riscv_iommu_reg_get32 s RISCV_IOMMU_REG_FQT AND fq_mask s"
definition fq_next :: "RISCVIOMMUState \<Rightarrow> 32 word" where
  "fq_next s = (fq_tail s + 1) AND fq_mask s"
definition fq_ready :: "RISCVIOMMUState \<Rightarrow> bool" where
  "fq_ready s = (riscv_iommu_reg_get32 s RISCV_IOMMU_REG_FQCSR AND RISCV_IOMMU_FQCSR_FQON \<noteq> 0
     \<and> riscv_iommu_reg_get32 s RISCV_IOMMU_REG_FQCSR AND (RISCV_IOMMU_FQCSR_FQOF OR RISCV_IOMMU_FQCSR_FQMF) = 0)"


section \<open>Example states\<close>

text \<open>Concrete contexts and device states on which the results below are exercised.\<close>

definition ex_ctx :: RISCVIOMMUContext where
  "ex_ctx = \<lparr>devid = 5, process_id = 0, tc = 0x11, ta = 0, msi_addr_mask = 0,
     msi_addr_pattern = 0, msiptp = 0\<rparr>"

definition ex_state :: RISCVIOMMUState where
  "ex_state = \<lparr>regs_rw = (\<lambda>_. 0), regs_wc = (\<lambda>_. 0), regs_ro = (\<lambda>_. 0xFF), cap = 0, ddtp = 0,
     enable_msi = True, cq_addr = 0, cq_mask = 0, fq_addr = 0, fq_mask = 0, pq_addr = 0,
     pq_mask = 0, ctx_cache = [], notify = True, raised = [], target_mem = (\<lambda>_. 0),
     target_res = (\<lambda>_. MEMTX_OK)\<rparr>"

definition ex_fq_on :: RISCVIOMMUState where
  "ex_fq_on = ex_state\<lparr>regs_rw := stl_le_p (\<lambda>_. 0) RISCV_IOMMU_REG_FQCSR RISCV_IOMMU_FQCSR_FQON,
     fq_addr := 0x1000, fq_mask := 3\<rparr>"

definition pq_head :: "RISCVIOMMUState \<Rightarrow> 32 word" where
  "pq_head s = riscv_iommu_reg_get32 s RISCV_IOMMU_REG_PQH AND pq_mask s"

definition pq_tail :: "RISCVIOMMUState \<Rightarrow> 32 word" where
  "pq_tail s = riscv_iommu_reg_get32 s RISCV_IOMMU_REG_PQT AND pq_mask s"

definition pq_next :: "RISCVIOMMUState \<Rightarrow> 32 word" where
  "pq_next s = (pq_tail s + 1) AND pq_mask s"

definition pq_ready :: "RISCVIOMMUState \<Rightarrow> bool" where
  "pq_ready s = (riscv_iommu_reg_get32 s RISCV_IOMMU_REG_PQCSR AND RISCV_IOMMU_PQCSR_PQON \<noteq> 0
     \<and> riscv_iommu_reg_get32 s RISCV_IOMMU_REG_PQCSR AND (RISCV_IOMMU_PQCSR_PQOF OR RISCV_IOMMU_PQCSR_PQMF) = 0)"



definition ex_fq2 :: RISCVIOMMUState where
  "ex_fq2 = riscv_iommu_process_fq_control
     (ex_state\<lparr>regs_rw := stq_le_p (stl_le_p (\<lambda>_. 0) RISCV_IOMMU_REG_FQCSR RISCV_IOMMU_FQCSR_FQEN)
                              RISCV_IOMMU_REG_FQB 0x400\<rparr>)"

definition ex_ev :: "64 word \<Rightarrow> riscv_iommu_fq_record" where
  "ex_ev n = \<lparr>fq_hdr = n, fq_reserved = 0, fq_iotval = 0, fq_iotval2 = 0\<rparr>"



section \<open>Basic facts\<close>

subsection \<open>Byte accessors\<close>

lemma byte_bit:
  "bit (push_bit k (ucast (ucast (drop_bit k (v :: 'a::len word)) :: 8 word) :: 'a word)) n
     = (k \<le> n \<and> n < k + 8 \<and> n < LENGTH('a) \<and> bit v n)"
  by (auto simp: bit_simps)

lemma byte_bit0:
  "bit (ucast (ucast (v :: 'a::len word) :: 8 word) :: 'a word) n
     = (n < 8 \<and> n < LENGTH('a) \<and> bit v n)"
  by (auto simp: bit_simps)

lemma lduw_stw_same [simp]: "lduw_le_p (stw_le_p p i v) i = v"
  unfolding lduw_le_p_def stw_le_p_def
  apply simp
  apply (rule bit_word_eqI)
  apply (simp only: bit_or_iff byte_bit byte_bit0)
  subgoal for n by (cases "bit v n") (simp_all, arith)
  done

lemma ldl_stl_same [simp]: "ldl_le_p (stl_le_p p i v) i = v"
  unfolding ldl_le_p_def stl_le_p_def
  apply simp
  apply (rule bit_word_eqI)
  apply (simp only: bit_or_iff byte_bit byte_bit0)
  subgoal for n by (cases "bit v n") (simp_all, arith)
  done

lemma ldq_stq_same [simp]: "ldq_le_p (stq_le_p p i v) i = v"
  unfolding ldq_le_p_def stq_le_p_def
  apply simp
  apply (rule bit_word_eqI)
  apply (simp only: bit_or_iff byte_bit byte_bit0)
  subgoal for n by (cases "bit v n") (simp_all, arith)
  done

lemma ldl_stl_other: "i + 4 \<le> j \<or> j + 4 \<le> i \<Longrightarrow> ldl_le_p (stl_le_p p i v) j = ldl_le_p p j"
  unfolding ldl_le_p_def stl_le_p_def by auto

lemma ldq_stl_other: "i + 4 \<le> j \<or> j + 8 \<le> i \<Longrightarrow> ldq_le_p (stl_le_p p i v) j = ldq_le_p p j"
  unfolding ldq_le_p_def stl_le_p_def by auto

lemma ldl_stq_other: "i + 8 \<le> j \<or> j + 4 \<le> i \<Longrightarrow> ldl_le_p (stq_le_p p i v) j = ldl_le_p p j"
  unfolding ldl_le_p_def stq_le_p_def by auto

subsection \<open>Fields\<close>

lemma disjoint_bits: "m AND p = 0 \<Longrightarrow> \<not> (bit m n \<and> bit (p :: 'a::len word) n)"
  by (metis bit_and_iff bit_0_eq bot_apply bot_bool_def)

lemma field_keep:
  "m AND p = 0 \<Longrightarrow> ((x AND NOT p) OR (y AND p)) AND m = x AND (m :: 'a::len word)"
  apply (rule bit_eqI)
  apply (frule_tac n = n in disjoint_bits)
  apply (auto simp: bit_simps)
  done

lemma get_field_set_field_other:
  "m AND p = 0 \<Longrightarrow> get_field (set_field x p v) m = get_field x m"
  by (simp add: get_field_def set_field_def field_keep)

lemma set_field_and_other:
  "m AND p = 0 \<Longrightarrow> set_field x p v AND m = x AND m"
  by (simp add: set_field_def field_keep)

lemma set_field_PV: "set_field x RISCV_IOMMU_FQ_HDR_PV 1 AND RISCV_IOMMU_FQ_HDR_PV = RISCV_IOMMU_FQ_HDR_PV"
proof -
  have "(1 :: 64 word) * (RISCV_IOMMU_FQ_HDR_PV AND NOT (push_bit 1 RISCV_IOMMU_FQ_HDR_PV))
          = RISCV_IOMMU_FQ_HDR_PV"
    by (simp add: bits)
  then have "set_field x RISCV_IOMMU_FQ_HDR_PV 1
               = (x AND NOT RISCV_IOMMU_FQ_HDR_PV) OR RISCV_IOMMU_FQ_HDR_PV"
    unfolding set_field_def by simp
  then show ?thesis
    by (simp add: bit.conj_disj_distrib2)
qed

lemma hdr_pv:
  "fq_hdr (report_fault_record ctx ft cause pv iotval iotval2) AND RISCV_IOMMU_FQ_HDR_PV
     = RISCV_IOMMU_FQ_HDR_PV"
proof -
  have d: "RISCV_IOMMU_FQ_HDR_PV AND RISCV_IOMMU_FQ_HDR_PID = 0" by (simp add: bits)
  show ?thesis
    by (cases pv) (simp_all add: report_fault_record_def Let_def set_field_and_other [OF d] set_field_PV)
qed

section \<open>Fault records\<close>

text \<open>
  Claim C10. Every fault record composed by \<^verbatim>\<open>riscv_iommu_report_fault\<close> has the PV bit of
  its header set, whatever the argument \<open>pv\<close> is; with \<open>pv\<close> false only the PID field is left
  empty. The record is the one handed to \<^verbatim>\<open>riscv_iommu_fault\<close> unless the cause is
  suppressed.
\<close>

theorem report_fault_pv_always_set:
  "get_field (fq_hdr (report_fault_record ctx ft cause pv iotval iotval2)) RISCV_IOMMU_FQ_HDR_PV = 1
   \<and> get_field (fq_hdr (report_fault_record ctx ft cause False iotval iotval2)) RISCV_IOMMU_FQ_HDR_PID = 0
   \<and> riscv_iommu_report_fault s ctx ft cause pv iotval iotval2
       = (if report_fault_suppressed ctx cause then s
          else riscv_iommu_fault s (report_fault_record ctx ft cause pv iotval iotval2))"
proof -
  have a: "get_field (fq_hdr (report_fault_record ctx ft cause pv iotval iotval2)) RISCV_IOMMU_FQ_HDR_PV = 1"
    unfolding get_field_def hdr_pv by (simp add: bits)
  have d1: "RISCV_IOMMU_FQ_HDR_PID AND RISCV_IOMMU_FQ_HDR_PV = 0"
    and d2: "RISCV_IOMMU_FQ_HDR_PID AND RISCV_IOMMU_FQ_HDR_DID = 0"
    and d3: "RISCV_IOMMU_FQ_HDR_PID AND RISCV_IOMMU_FQ_HDR_TTYPE = 0"
    and d4: "RISCV_IOMMU_FQ_HDR_PID AND RISCV_IOMMU_FQ_HDR_CAUSE = 0"
    by (simp_all add: bits)
  have b: "get_field (fq_hdr (report_fault_record ctx ft cause False iotval iotval2)) RISCV_IOMMU_FQ_HDR_PID = 0"
    by (simp add: report_fault_record_def Let_def get_field_set_field_other [OF d1]
        get_field_set_field_other [OF d2] get_field_set_field_other [OF d3]
        get_field_set_field_other [OF d4]) (simp add: get_field_def)
  show ?thesis using a b by (simp add: riscv_iommu_report_fault_def)
qed

subsection \<open>Queues\<close>

lemma length_le_bytes [simp]: "length (le_bytes n v) = n"
  by (induction n arbitrary: v) simp_all

lemma length_fq_record_bytes [simp]: "length (fq_record_bytes ev) = 32"
  by (simp add: fq_record_bytes_def)

lemma length_pq_record_bytes [simp]: "length (pq_record_bytes pr) = 16"
  by (simp add: pq_record_bytes_def)

lemma notify_frame [simp]:
  "regs_wc (riscv_iommu_notify s v) = regs_wc s"
  "regs_ro (riscv_iommu_notify s v) = regs_ro s"
  "cap (riscv_iommu_notify s v) = cap s"
  "ddtp (riscv_iommu_notify s v) = ddtp s"
  "enable_msi (riscv_iommu_notify s v) = enable_msi s"
  "cq_addr (riscv_iommu_notify s v) = cq_addr s"
  "cq_mask (riscv_iommu_notify s v) = cq_mask s"
  "fq_addr (riscv_iommu_notify s v) = fq_addr s"
  "fq_mask (riscv_iommu_notify s v) = fq_mask s"
  "pq_addr (riscv_iommu_notify s v) = pq_addr s"
  "pq_mask (riscv_iommu_notify s v) = pq_mask s"
  "ctx_cache (riscv_iommu_notify s v) = ctx_cache s"
  "notify (riscv_iommu_notify s v) = notify s"
  "target_mem (riscv_iommu_notify s v) = target_mem s"
  "target_res (riscv_iommu_notify s v) = target_res s"
  by (simp_all add: riscv_iommu_notify_def riscv_iommu_reg_mod32_def riscv_iommu_reg_get32_def
      Let_def split: prod.splits)

lemma notify_get32_other:
  "i + 4 \<le> RISCV_IOMMU_REG_IPSR \<or> RISCV_IOMMU_REG_IPSR + 4 \<le> i \<Longrightarrow>
   riscv_iommu_reg_get32 (riscv_iommu_notify s v) i = riscv_iommu_reg_get32 s i"
  by (auto simp add: riscv_iommu_notify_def riscv_iommu_reg_mod32_def riscv_iommu_reg_get32_def
      Let_def ldl_stl_other split: prod.splits)

lemma fault_not_ready: "\<not> fq_ready s \<Longrightarrow> riscv_iommu_fault s ev = s"
  by (auto simp add: riscv_iommu_fault_def fq_ready_def Let_def)

lemma fault_full:
  "fq_ready s \<Longrightarrow> fq_head s = fq_next s \<Longrightarrow>
   riscv_iommu_fault s ev =
     (let s1 = snd (riscv_iommu_reg_mod32 s RISCV_IOMMU_REG_FQCSR RISCV_IOMMU_FQCSR_FQOF 0)
      in if riscv_iommu_reg_get32 s RISCV_IOMMU_REG_FQCSR AND RISCV_IOMMU_FQCSR_FIE \<noteq> 0
         then riscv_iommu_notify s1 RISCV_IOMMU_INTR_FQ else s1)"
  by (auto simp add: riscv_iommu_fault_def fq_ready_def fq_head_def fq_next_def fq_tail_def Let_def)

lemma fault_store:
  "fq_ready s \<Longrightarrow> fq_head s \<noteq> fq_next s \<Longrightarrow>
   dma_result (target_res s) (fq_addr s + ucast (fq_tail s) * 32) 32 = MEMTX_OK \<Longrightarrow>
   riscv_iommu_fault s ev =
     (let s1 = riscv_iommu_reg_set32
                 (s\<lparr>target_mem := mem_write (target_mem s) (fq_addr s + ucast (fq_tail s) * 32)
                                     (fq_record_bytes ev)\<rparr>)
                 RISCV_IOMMU_REG_FQT (fq_next s)
      in if riscv_iommu_reg_get32 s RISCV_IOMMU_REG_FQCSR AND RISCV_IOMMU_FQCSR_FIE \<noteq> 0
         then riscv_iommu_notify s1 RISCV_IOMMU_INTR_FQ else s1)"
  by (auto simp add: riscv_iommu_fault_def fq_ready_def fq_head_def fq_next_def fq_tail_def Let_def
      dma_memory_write_def)

lemma le_bytes_numeral [simp]:
  "le_bytes (numeral k) v = ucast v # le_bytes (pred_numeral k) (drop_bit 8 v)"
  by (simp add: numeral_eq_Suc)

lemma mem_read_numeral [simp]:
  "mem_read m a (numeral k) = m a # mem_read m (a + 1) (pred_numeral k)"
  by (simp add: numeral_eq_Suc)

lemma dma_result_numeral [simp]:
  "dma_result r a (numeral k) = (if r a = MEMTX_OK then dma_result r (a + 1) (pred_numeral k) else r a)"
  by (simp add: numeral_eq_Suc)

lemma dma_result_all_ok [simp]: "dma_result (\<lambda>_. MEMTX_OK) a n = MEMTX_OK"
  by (induction n arbitrary: a) simp_all

lemma ex_fq_on_ready: "fq_ready ex_fq_on"
  by (simp add: fq_ready_def ex_fq_on_def ex_state_def riscv_iommu_reg_get32_def bits)

lemma ex_fq_on_idx: "fq_head ex_fq_on = 0" "fq_tail ex_fq_on = 0" "fq_next ex_fq_on = 1"
  by (simp_all add: fq_head_def fq_tail_def fq_next_def ex_fq_on_def ex_state_def
      riscv_iommu_reg_get32_def bits ldl_le_p_def stl_le_p_def)

text \<open>
  Claim C8. With \<open>tc.DTF\<close> set, reporting a fault leaves the state untouched unless the cause
  is one of DMA_DISABLED, DDT_LOAD_FAULT, DDT_INVALID, DDT_MISCONFIGURED, DDT_CORRUPTED,
  INTERNAL_DP_ERROR and MSI_WR_FAULT. A PDT_LOAD_FAULT is dropped; a DDT_LOAD_FAULT is handed
  to the fault queue, which stores the record at its tail when it is on and not full.
\<close>

theorem report_fault_dtf_suppression:
  assumes "tc ctx AND RISCV_IOMMU_DC_TC_DTF \<noteq> 0"
  shows "(cause \<notin> {RISCV_IOMMU_FQ_CAUSE_DMA_DISABLED, RISCV_IOMMU_FQ_CAUSE_DDT_LOAD_FAULT,
                   RISCV_IOMMU_FQ_CAUSE_DDT_INVALID, RISCV_IOMMU_FQ_CAUSE_DDT_MISCONFIGURED,
                   RISCV_IOMMU_FQ_CAUSE_DDT_CORRUPTED, RISCV_IOMMU_FQ_CAUSE_INTERNAL_DP_ERROR,
                   RISCV_IOMMU_FQ_CAUSE_MSI_WR_FAULT}
           \<longrightarrow> riscv_iommu_report_fault s ctx ft cause pv iotval iotval2 = s)
     \<and> riscv_iommu_report_fault s ctx ft RISCV_IOMMU_FQ_CAUSE_PDT_LOAD_FAULT pv iotval iotval2 = s
     \<and> riscv_iommu_report_fault s ctx ft RISCV_IOMMU_FQ_CAUSE_DDT_LOAD_FAULT pv iotval iotval2
         = riscv_iommu_fault s
             (report_fault_record ctx ft RISCV_IOMMU_FQ_CAUSE_DDT_LOAD_FAULT pv iotval iotval2)
     \<and> (fq_ready s \<and> fq_head s \<noteq> fq_next s
          \<and> dma_result (target_res s) (fq_addr s + ucast (fq_tail s) * 32) 32 = MEMTX_OK
         \<longrightarrow> target_mem (riscv_iommu_report_fault s ctx ft RISCV_IOMMU_FQ_CAUSE_DDT_LOAD_FAULT pv
                           iotval iotval2)
               = mem_write (target_mem s) (fq_addr s + ucast (fq_tail s) * 32)
                   (fq_record_bytes
                      (report_fault_record ctx ft RISCV_IOMMU_FQ_CAUSE_DDT_LOAD_FAULT pv iotval iotval2)))"
proof -
  have a: "cause \<notin> {RISCV_IOMMU_FQ_CAUSE_DMA_DISABLED, RISCV_IOMMU_FQ_CAUSE_DDT_LOAD_FAULT,
                   RISCV_IOMMU_FQ_CAUSE_DDT_INVALID, RISCV_IOMMU_FQ_CAUSE_DDT_MISCONFIGURED,
                   RISCV_IOMMU_FQ_CAUSE_DDT_CORRUPTED, RISCV_IOMMU_FQ_CAUSE_INTERNAL_DP_ERROR,
                   RISCV_IOMMU_FQ_CAUSE_MSI_WR_FAULT}
           \<Longrightarrow> riscv_iommu_report_fault s ctx ft cause pv iotval iotval2 = s" for cause
    using assms by (simp add: riscv_iommu_report_fault_def report_fault_suppressed_def)
  have b: "riscv_iommu_report_fault s ctx ft RISCV_IOMMU_FQ_CAUSE_PDT_LOAD_FAULT pv iotval iotval2 = s"
    by (rule a) (simp add: bits)
  have c: "riscv_iommu_report_fault s ctx ft RISCV_IOMMU_FQ_CAUSE_DDT_LOAD_FAULT pv iotval iotval2
         = riscv_iommu_fault s
             (report_fault_record ctx ft RISCV_IOMMU_FQ_CAUSE_DDT_LOAD_FAULT pv iotval iotval2)"
    by (simp add: riscv_iommu_report_fault_def report_fault_suppressed_def)
  have d: "target_mem (riscv_iommu_fault s ev)
             = mem_write (target_mem s) (fq_addr s + ucast (fq_tail s) * 32) (fq_record_bytes ev)"
    if "fq_ready s" "fq_head s \<noteq> fq_next s"
       "dma_result (target_res s) (fq_addr s + ucast (fq_tail s) * 32) 32 = MEMTX_OK" for ev
    using that by (simp add: fault_store Let_def riscv_iommu_reg_set32_def)
  show ?thesis using a b c d by simp
qed

theorem report_fault_dtf_suppression_witness:
  "tc ex_ctx AND RISCV_IOMMU_DC_TC_DTF \<noteq> 0
   \<and> riscv_iommu_report_fault ex_fq_on ex_ctx RISCV_IOMMU_FQ_TTYPE_UADDR_RD
        RISCV_IOMMU_FQ_CAUSE_PDT_LOAD_FAULT False 0 0 = ex_fq_on
   \<and> mem_read (target_mem (riscv_iommu_report_fault ex_fq_on ex_ctx RISCV_IOMMU_FQ_TTYPE_UADDR_RD
        RISCV_IOMMU_FQ_CAUSE_DDT_LOAD_FAULT False 0 0)) 0x1000 8 = [0x01, 0x01, 0, 0, 0x09, 0x05, 0, 0]"
proof -
  have h: "tc ex_ctx AND RISCV_IOMMU_DC_TC_DTF \<noteq> 0"
    by (simp add: ex_ctx_def bits)
  have r: "fq_ready ex_fq_on \<and> fq_head ex_fq_on \<noteq> fq_next ex_fq_on
     \<and> dma_result (target_res ex_fq_on) (fq_addr ex_fq_on + ucast (fq_tail ex_fq_on) * 32) 32 = MEMTX_OK"
    by (simp add: ex_fq_on_ready ex_fq_on_idx) (simp add: ex_fq_on_def ex_state_def)
  have hdr: "fq_record_bytes (report_fault_record ex_ctx RISCV_IOMMU_FQ_TTYPE_UADDR_RD
        RISCV_IOMMU_FQ_CAUSE_DDT_LOAD_FAULT False 0 0) = 
        [0x01, 0x01, 0, 0, 0x09, 0x05, 0, 0, 0, 0, 0, 0, 0, 0, 0, 0,
         0, 0, 0, 0, 0, 0, 0, 0, 0, 0, 0, 0, 0, 0, 0, 0]"
    by (simp add: fq_record_bytes_def report_fault_record_def ex_ctx_def set_field_def bits)
  note T = report_fault_dtf_suppression [OF h, of "RISCV_IOMMU_FQ_CAUSE_PDT_LOAD_FAULT" ex_fq_on
        RISCV_IOMMU_FQ_TTYPE_UADDR_RD False 0 0]
  from T have p1: "riscv_iommu_report_fault ex_fq_on ex_ctx RISCV_IOMMU_FQ_TTYPE_UADDR_RD
        RISCV_IOMMU_FQ_CAUSE_PDT_LOAD_FAULT False 0 0 = ex_fq_on"
    by blast
  from T r have "target_mem (riscv_iommu_report_fault ex_fq_on ex_ctx RISCV_IOMMU_FQ_TTYPE_UADDR_RD
        RISCV_IOMMU_FQ_CAUSE_DDT_LOAD_FAULT False 0 0)
      = mem_write (target_mem ex_fq_on) (fq_addr ex_fq_on + ucast (fq_tail ex_fq_on) * 32)
          (fq_record_bytes (report_fault_record ex_ctx RISCV_IOMMU_FQ_TTYPE_UADDR_RD
             RISCV_IOMMU_FQ_CAUSE_DDT_LOAD_FAULT False 0 0))"
    by blast
  then have p2: "mem_read (target_mem (riscv_iommu_report_fault ex_fq_on ex_ctx
        RISCV_IOMMU_FQ_TTYPE_UADDR_RD RISCV_IOMMU_FQ_CAUSE_DDT_LOAD_FAULT False 0 0)) 0x1000 8
      = [0x01, 0x01, 0, 0, 0x09, 0x05, 0, 0]"
    by (simp add: hdr ex_fq_on_idx) (simp add: ex_fq_on_def ex_state_def)
  show ?thesis using h p1 p2 by blast
qed

lemma notify_ldl_other:
  "i + 4 \<le> RISCV_IOMMU_REG_IPSR \<or> RISCV_IOMMU_REG_IPSR + 4 \<le> i \<Longrightarrow>
   ldl_le_p (regs_rw (riscv_iommu_notify s v)) i = ldl_le_p (regs_rw s) i"
  using notify_get32_other [of i s v] by (simp add: riscv_iommu_reg_get32_def)




lemma or_and_same: "(x OR b) AND b = (b :: 'a::len word)"
  by (rule bit_eqI) (auto simp: bit_simps)

text \<open>A full ring: nothing is stored, the tail stays, the overflow bit is raised.\<close>

lemma fault_full_mem:
  assumes "fq_head s = fq_next s"
  shows "target_mem (riscv_iommu_fault s ev) = target_mem s"
  using assms by (cases "fq_ready s")
      (simp_all add: fault_not_ready fault_full Let_def riscv_iommu_reg_mod32_def)

lemma fault_full_tail:
  assumes "fq_head s = fq_next s"
  shows "riscv_iommu_reg_get32 (riscv_iommu_fault s ev) RISCV_IOMMU_REG_FQT
           = riscv_iommu_reg_get32 s RISCV_IOMMU_REG_FQT"
    using assms by (cases "fq_ready s")
      (simp_all add: fault_not_ready fault_full Let_def riscv_iommu_reg_mod32_def
        riscv_iommu_reg_get32_def notify_ldl_other ldl_stl_other bits)

lemma fault_full_of_ready:
  assumes "fq_head s = fq_next s" "fq_ready s"
  shows "riscv_iommu_reg_get32 (riscv_iommu_fault s ev) RISCV_IOMMU_REG_FQCSR
           = riscv_iommu_reg_get32 s RISCV_IOMMU_REG_FQCSR OR RISCV_IOMMU_FQCSR_FQOF"
proof -
  have n: "ldl_le_p (regs_rw (riscv_iommu_notify t v)) RISCV_IOMMU_REG_FQCSR
             = ldl_le_p (regs_rw t) RISCV_IOMMU_REG_FQCSR" for t v
    by (rule notify_ldl_other) (simp add: bits)
  show ?thesis
    using assms
    by (simp add: fault_full Let_def riscv_iommu_reg_mod32_def riscv_iommu_reg_get32_def n)
qed


lemma fault_store_effect:
  assumes "fq_ready s" "fq_head s \<noteq> fq_next s"
    "dma_result (target_res s) (fq_addr s + ucast (fq_tail s) * 32) 32 = MEMTX_OK"
  shows "target_mem (riscv_iommu_fault s ev)
           = mem_write (target_mem s) (fq_addr s + ucast (fq_tail s) * 32) (fq_record_bytes ev)"
    and "riscv_iommu_reg_get32 (riscv_iommu_fault s ev) RISCV_IOMMU_REG_FQT = fq_next s"
    and "riscv_iommu_reg_get32 (riscv_iommu_fault s ev) RISCV_IOMMU_REG_FQH
           = riscv_iommu_reg_get32 s RISCV_IOMMU_REG_FQH"
    and "riscv_iommu_reg_get32 (riscv_iommu_fault s ev) RISCV_IOMMU_REG_FQCSR
           = riscv_iommu_reg_get32 s RISCV_IOMMU_REG_FQCSR"
proof -
  have n: "i + 4 \<le> 0x54 \<or> 0x58 \<le> i \<Longrightarrow>
      ldl_le_p (regs_rw (riscv_iommu_notify t v)) i = ldl_le_p (regs_rw t) i" for t v i
    using notify_ldl_other [of i t v] by (simp add: bits)
  show "target_mem (riscv_iommu_fault s ev)
           = mem_write (target_mem s) (fq_addr s + ucast (fq_tail s) * 32) (fq_record_bytes ev)"
    using assms by (simp add: fault_store Let_def riscv_iommu_reg_set32_def)
  show "riscv_iommu_reg_get32 (riscv_iommu_fault s ev) RISCV_IOMMU_REG_FQT = fq_next s"
    using assms
    by (simp add: fault_store Let_def riscv_iommu_reg_set32_def riscv_iommu_reg_get32_def n
        RISCV_IOMMU_REG_FQT_def)
  show "riscv_iommu_reg_get32 (riscv_iommu_fault s ev) RISCV_IOMMU_REG_FQH
           = riscv_iommu_reg_get32 s RISCV_IOMMU_REG_FQH"
    using assms
    by (simp add: fault_store Let_def riscv_iommu_reg_set32_def riscv_iommu_reg_get32_def n
        RISCV_IOMMU_REG_FQT_def RISCV_IOMMU_REG_FQH_def ldl_stl_other)
  show "riscv_iommu_reg_get32 (riscv_iommu_fault s ev) RISCV_IOMMU_REG_FQCSR
           = riscv_iommu_reg_get32 s RISCV_IOMMU_REG_FQCSR"
    using assms
    by (simp add: fault_store Let_def riscv_iommu_reg_set32_def riscv_iommu_reg_get32_def n
        RISCV_IOMMU_REG_FQT_def RISCV_IOMMU_REG_FQCSR_def ldl_stl_other)
qed

lemma memtx_case_not_ok:
  "res \<noteq> MEMTX_OK \<Longrightarrow> (case res of MEMTX_OK \<Rightarrow> a | _ \<Rightarrow> b) = b"
  by (cases res) simp_all

lemma dma_memory_write_fail:
  "dma_result (target_res s) a (length bs) \<noteq> MEMTX_OK \<Longrightarrow>
   dma_memory_write s a bs = (dma_result (target_res s) a (length bs), s)"
  by (simp add: dma_memory_write_def Let_def)

lemma dma_memory_write_ok:
  "dma_result (target_res s) a (length bs) = MEMTX_OK \<Longrightarrow>
   dma_memory_write s a bs = (MEMTX_OK, s\<lparr>target_mem := mem_write (target_mem s) a bs\<rparr>)"
  by (simp add: dma_memory_write_def Let_def)

lemma fault_mf:
  assumes "fq_ready s" "fq_head s \<noteq> fq_next s"
    "dma_result (target_res s) (fq_addr s + ucast (fq_tail s) * 32) 32 \<noteq> MEMTX_OK"
  shows "riscv_iommu_fault s ev =
     (let s1 = snd (riscv_iommu_reg_mod32 s RISCV_IOMMU_REG_FQCSR RISCV_IOMMU_FQCSR_FQMF 0)
      in if riscv_iommu_reg_get32 s RISCV_IOMMU_REG_FQCSR AND RISCV_IOMMU_FQCSR_FIE \<noteq> 0
         then riscv_iommu_notify s1 RISCV_IOMMU_INTR_FQ else s1)"
proof -
  have w: "dma_memory_write s (fq_addr s + ucast (fq_tail s) * 32) (fq_record_bytes ev)
      = (dma_result (target_res s) (fq_addr s + ucast (fq_tail s) * 32) 32, s)"
    using assms(3) by (simp add: dma_memory_write_fail)
  have c: "riscv_iommu_reg_get32 s RISCV_IOMMU_REG_FQCSR AND RISCV_IOMMU_FQCSR_FQON \<noteq> 0"
    "riscv_iommu_reg_get32 s RISCV_IOMMU_REG_FQCSR AND (RISCV_IOMMU_FQCSR_FQOF OR RISCV_IOMMU_FQCSR_FQMF) = 0"
    using assms(1) by (simp_all add: fq_ready_def)
  have i: "riscv_iommu_reg_get32 s RISCV_IOMMU_REG_FQH AND fq_mask s = fq_head s"
    "riscv_iommu_reg_get32 s RISCV_IOMMU_REG_FQT AND fq_mask s = fq_tail s"
    "(fq_tail s + 1) AND fq_mask s = fq_next s"
    by (simp_all add: fq_head_def fq_tail_def fq_next_def)
  show ?thesis
    unfolding riscv_iommu_fault_def Let_def i
    by (simp only: c w assms(2) memtx_case_not_ok [OF assms(3)] prod.case if_False simp_thms)
qed

lemma fault_frame [simp]:
  "fq_mask (riscv_iommu_fault s ev) = fq_mask s"
  "fq_addr (riscv_iommu_fault s ev) = fq_addr s"
  "target_res (riscv_iommu_fault s ev) = target_res s"
proof -
  consider "\<not> fq_ready s" | "fq_ready s" "fq_head s = fq_next s"
    | "fq_ready s" "fq_head s \<noteq> fq_next s"
      "dma_result (target_res s) (fq_addr s + ucast (fq_tail s) * 32) 32 = MEMTX_OK"
    | "fq_ready s" "fq_head s \<noteq> fq_next s"
      "dma_result (target_res s) (fq_addr s + ucast (fq_tail s) * 32) 32 \<noteq> MEMTX_OK"
    by blast
  then have "fq_mask (riscv_iommu_fault s ev) = fq_mask s
      \<and> fq_addr (riscv_iommu_fault s ev) = fq_addr s
      \<and> target_res (riscv_iommu_fault s ev) = target_res s"
    by cases
      (simp_all add: fault_not_ready fault_full fault_store fault_mf Let_def
        riscv_iommu_reg_mod32_def riscv_iommu_reg_set32_def)
  then show "fq_mask (riscv_iommu_fault s ev) = fq_mask s"
    "fq_addr (riscv_iommu_fault s ev) = fq_addr s"
    "target_res (riscv_iommu_fault s ev) = target_res s"
    by simp_all
qed

text \<open>
  A fault queue of two entries that is on, empty and writable takes one record; the next
  push finds the ring full.
\<close>

lemma fq_size2_pushes:
  assumes r: "fq_ready s" and m: "fq_mask s = 1"
    and h: "riscv_iommu_reg_get32 s RISCV_IOMMU_REG_FQH = 0"
    and t: "riscv_iommu_reg_get32 s RISCV_IOMMU_REG_FQT = 0"
    and d: "dma_result (target_res s) (fq_addr s) 32 = MEMTX_OK"
  shows "target_mem (riscv_iommu_fault s e1) = mem_write (target_mem s) (fq_addr s) (fq_record_bytes e1)"
    and "riscv_iommu_reg_get32 (riscv_iommu_fault s e1) RISCV_IOMMU_REG_FQT = 1"
    and "target_mem (riscv_iommu_fault (riscv_iommu_fault s e1) e2) = target_mem (riscv_iommu_fault s e1)"
    and "riscv_iommu_reg_get32 (riscv_iommu_fault (riscv_iommu_fault s e1) e2) RISCV_IOMMU_REG_FQT = 1"
    and "riscv_iommu_reg_get32 (riscv_iommu_fault (riscv_iommu_fault s e1) e2) RISCV_IOMMU_REG_FQCSR
           AND RISCV_IOMMU_FQCSR_FQOF \<noteq> 0"
    and "riscv_iommu_fault (riscv_iommu_fault (riscv_iommu_fault s e1) e2) e3
           = riscv_iommu_fault (riscv_iommu_fault s e1) e2"
proof -
  let ?s1 = "riscv_iommu_fault s e1"
  let ?s2 = "riscv_iommu_fault ?s1 e2"
  have i0: "fq_head s = 0" "fq_tail s = 0" "fq_next s = 1"
    using m h t by (simp_all add: fq_head_def fq_tail_def fq_next_def)
  have ne: "fq_head s \<noteq> fq_next s" using i0 by simp
  have d': "dma_result (target_res s) (fq_addr s + ucast (fq_tail s) * 32) 32 = MEMTX_OK"
    using d i0 by simp
  note E = fault_store_effect [OF r ne d']
  show a1: "target_mem ?s1 = mem_write (target_mem s) (fq_addr s) (fq_record_bytes e1)"
    using E(1) [of e1] i0 by simp
  show a2: "riscv_iommu_reg_get32 ?s1 RISCV_IOMMU_REG_FQT = 1"
    using E(2) [of e1] i0 by simp
  have r1: "fq_ready ?s1"
    using r E(4) [of e1] by (simp add: fq_ready_def)
  have i1: "fq_head ?s1 = fq_next ?s1"
    using a2 E(3) [of e1] h m by (simp add: fq_head_def fq_tail_def fq_next_def)
  show "target_mem ?s2 = target_mem ?s1"
    by (rule fault_full_mem [OF i1])
  show "riscv_iommu_reg_get32 ?s2 RISCV_IOMMU_REG_FQT = 1"
    using fault_full_tail [OF i1, of e2] a2 by simp
  have c2: "riscv_iommu_reg_get32 ?s2 RISCV_IOMMU_REG_FQCSR
      = riscv_iommu_reg_get32 ?s1 RISCV_IOMMU_REG_FQCSR OR RISCV_IOMMU_FQCSR_FQOF"
    by (rule fault_full_of_ready [OF i1 r1])
  have nz: "RISCV_IOMMU_FQCSR_FQOF \<noteq> 0" by (simp add: bits)
  show o2: "riscv_iommu_reg_get32 ?s2 RISCV_IOMMU_REG_FQCSR AND RISCV_IOMMU_FQCSR_FQOF \<noteq> 0"
    using nz by (simp add: c2 or_and_same)
  have "riscv_iommu_reg_get32 ?s2 RISCV_IOMMU_REG_FQCSR
          AND (RISCV_IOMMU_FQCSR_FQOF OR RISCV_IOMMU_FQCSR_FQMF) \<noteq> 0"
    using o2 by (simp add: bit.conj_disj_distrib or_eq_0_iff)
  then have "\<not> fq_ready ?s2"
    by (simp add: fq_ready_def)
  then show "riscv_iommu_fault ?s2 e3 = ?s2"
    by (rule fault_not_ready)
qed

lemma pri_store:
  "pq_ready s \<Longrightarrow> pq_head s \<noteq> pq_next s \<Longrightarrow>
   dma_result (target_res s) (pq_addr s + ucast (pq_tail s) * 16) 16 = MEMTX_OK \<Longrightarrow>
   riscv_iommu_pri s pr =
     (let s1 = riscv_iommu_reg_set32
                 (s\<lparr>target_mem := mem_write (target_mem s) (pq_addr s + ucast (pq_tail s) * 16)
                                     (pq_record_bytes pr)\<rparr>)
                 RISCV_IOMMU_REG_PQT (pq_next s)
      in if riscv_iommu_reg_get32 s RISCV_IOMMU_REG_PQCSR AND RISCV_IOMMU_PQCSR_PIE \<noteq> 0
         then riscv_iommu_notify s1 RISCV_IOMMU_INTR_PQ else s1)"
  by (auto simp add: riscv_iommu_pri_def pq_ready_def pq_head_def pq_next_def pq_tail_def Let_def
      dma_memory_write_def)











lemma ex_fq2_regs:
  "riscv_iommu_reg_get32 ex_fq2 RISCV_IOMMU_REG_FQCSR = RISCV_IOMMU_FQCSR_FQEN OR RISCV_IOMMU_FQCSR_FQON"
  "riscv_iommu_reg_get32 ex_fq2 RISCV_IOMMU_REG_FQT = 0"
  "riscv_iommu_reg_get32 ex_fq2 RISCV_IOMMU_REG_FQH = 0"
  "fq_mask ex_fq2 = 1" "fq_addr ex_fq2 = 0x1000"
  "target_res ex_fq2 = (\<lambda>_. MEMTX_OK)" "target_mem ex_fq2 = (\<lambda>_. 0)"
  by (simp_all add: ex_fq2_def ex_state_def riscv_iommu_process_fq_control_def
      riscv_iommu_reg_get32_def riscv_iommu_reg_get64_def riscv_iommu_reg_mod32_def Let_def
      ldl_stl_other ldl_stq_other ldq_stl_other get_field_def PPN_PHYS_def TARGET_PAGE_BITS_def bits)

lemma ex_fq2_ready: "fq_ready ex_fq2"
  by (simp add: fq_ready_def ex_fq2_regs) (simp add: bits)

text \<open>
  Claim C4. With the fault queue on, of size 2 (mask 1) and head = tail = 0, the first
  record is stored at slot 0 and the tail becomes 1; the second push finds head equal to
  (tail + 1) masked, stores nothing, leaves the tail at 1 and sets FQOF; the third push
  changes nothing at all.
\<close>

theorem fq_size2_overflow_on_second_push:
  assumes "fq_ready s" and "fq_mask s = 1"
    and "riscv_iommu_reg_get32 s RISCV_IOMMU_REG_FQH = 0"
    and "riscv_iommu_reg_get32 s RISCV_IOMMU_REG_FQT = 0"
    and "dma_result (target_res s) (fq_addr s) 32 = MEMTX_OK"
  shows "target_mem (riscv_iommu_fault s e1) = mem_write (target_mem s) (fq_addr s) (fq_record_bytes e1)
    \<and> riscv_iommu_reg_get32 (riscv_iommu_fault s e1) RISCV_IOMMU_REG_FQT = 1
    \<and> target_mem (riscv_iommu_fault (riscv_iommu_fault s e1) e2) = target_mem (riscv_iommu_fault s e1)
    \<and> riscv_iommu_reg_get32 (riscv_iommu_fault (riscv_iommu_fault s e1) e2) RISCV_IOMMU_REG_FQT = 1
    \<and> riscv_iommu_reg_get32 (riscv_iommu_fault (riscv_iommu_fault s e1) e2) RISCV_IOMMU_REG_FQCSR
           AND RISCV_IOMMU_FQCSR_FQOF \<noteq> 0
    \<and> riscv_iommu_fault (riscv_iommu_fault (riscv_iommu_fault s e1) e2) e3
           = riscv_iommu_fault (riscv_iommu_fault s e1) e2"
  using fq_size2_pushes [OF assms] by blast

theorem fq_size2_overflow_on_second_push_witness:
  "fq_ready ex_fq2 \<and> fq_mask ex_fq2 = 1
   \<and> riscv_iommu_reg_get32 ex_fq2 RISCV_IOMMU_REG_FQH = 0
   \<and> riscv_iommu_reg_get32 ex_fq2 RISCV_IOMMU_REG_FQT = 0
   \<and> dma_result (target_res ex_fq2) (fq_addr ex_fq2) 32 = MEMTX_OK
   \<and> target_mem (riscv_iommu_fault ex_fq2 (ex_ev 1))
       = mem_write (target_mem ex_fq2) (fq_addr ex_fq2) (fq_record_bytes (ex_ev 1))
   \<and> riscv_iommu_reg_get32 (riscv_iommu_fault (riscv_iommu_fault ex_fq2 (ex_ev 1)) (ex_ev 2))
        RISCV_IOMMU_REG_FQT = 1
   \<and> riscv_iommu_fault (riscv_iommu_fault (riscv_iommu_fault ex_fq2 (ex_ev 1)) (ex_ev 2)) (ex_ev 3)
       = riscv_iommu_fault (riscv_iommu_fault ex_fq2 (ex_ev 1)) (ex_ev 2)"
proof -
  have h: "fq_ready ex_fq2" "fq_mask ex_fq2 = 1"
    "riscv_iommu_reg_get32 ex_fq2 RISCV_IOMMU_REG_FQH = 0"
    "riscv_iommu_reg_get32 ex_fq2 RISCV_IOMMU_REG_FQT = 0"
    "dma_result (target_res ex_fq2) (fq_addr ex_fq2) 32 = MEMTX_OK"
    by (simp_all add: ex_fq2_ready ex_fq2_regs)
  show ?thesis
    using fq_size2_overflow_on_second_push [OF h, of "ex_ev 1" "ex_ev 2" "ex_ev 3"] h by blast
qed

text \<open>
  Claim C4 as stated fails on the queue enabled with LOG2SZ = 0: after two pushes the tail
  is not 0, slot 1 does not hold the second record, and FQOF is already set.
\<close>

theorem fq_size2_second_record_counterexample:
  "fq_ready ex_fq2 \<and> fq_mask ex_fq2 = 1
   \<and> riscv_iommu_reg_get32 ex_fq2 RISCV_IOMMU_REG_FQH = 0
   \<and> riscv_iommu_reg_get32 ex_fq2 RISCV_IOMMU_REG_FQT = 0
   \<and> riscv_iommu_reg_get32 (riscv_iommu_fault (riscv_iommu_fault ex_fq2 (ex_ev 1)) (ex_ev 2))
        RISCV_IOMMU_REG_FQT \<noteq> 0
   \<and> mem_read (target_mem (riscv_iommu_fault (riscv_iommu_fault ex_fq2 (ex_ev 1)) (ex_ev 2)))
        (fq_addr ex_fq2 + 32) 32 \<noteq> fq_record_bytes (ex_ev 2)
   \<and> riscv_iommu_reg_get32 (riscv_iommu_fault (riscv_iommu_fault ex_fq2 (ex_ev 1)) (ex_ev 2))
        RISCV_IOMMU_REG_FQCSR AND RISCV_IOMMU_FQCSR_FQOF \<noteq> 0"
proof -
  have h: "fq_ready ex_fq2" "fq_mask ex_fq2 = 1"
    "riscv_iommu_reg_get32 ex_fq2 RISCV_IOMMU_REG_FQH = 0"
    "riscv_iommu_reg_get32 ex_fq2 RISCV_IOMMU_REG_FQT = 0"
    "dma_result (target_res ex_fq2) (fq_addr ex_fq2) 32 = MEMTX_OK"
    by (simp_all add: ex_fq2_ready ex_fq2_regs)
  note P = fq_size2_pushes [OF h]
  have m: "target_mem (riscv_iommu_fault (riscv_iommu_fault ex_fq2 (ex_ev 1)) (ex_ev 2)) 0x1020 = 0"
    by (simp add: P(3) P(1) ex_fq2_regs fq_record_bytes_def ex_ev_def)
  have a: "hd (mem_read (target_mem (riscv_iommu_fault (riscv_iommu_fault ex_fq2 (ex_ev 1)) (ex_ev 2)))
        (fq_addr ex_fq2 + 32) 32) = 0"
    by (simp add: ex_fq2_regs m)
  have b: "hd (fq_record_bytes (ex_ev 2)) = 2"
    by (simp add: fq_record_bytes_def ex_ev_def)
  have "mem_read (target_mem (riscv_iommu_fault (riscv_iommu_fault ex_fq2 (ex_ev 1)) (ex_ev 2)))
        (fq_addr ex_fq2 + 32) 32 \<noteq> fq_record_bytes (ex_ev 2)"
  proof
    assume "mem_read (target_mem (riscv_iommu_fault (riscv_iommu_fault ex_fq2 (ex_ev 1)) (ex_ev 2)))
        (fq_addr ex_fq2 + 32) 32 = fq_record_bytes (ex_ev 2)"
    then have "hd (mem_read (target_mem (riscv_iommu_fault (riscv_iommu_fault ex_fq2 (ex_ev 1)) (ex_ev 2)))
        (fq_addr ex_fq2 + 32) 32) = hd (fq_record_bytes (ex_ev 2))"
      by (rule arg_cong)
    then have "(0 :: 8 word) = 2"
      by (simp only: a b)
    then show False by simp
  qed
  then show ?thesis using h P(4) P(5) by simp
qed

end
